theory Spec2Isabelle
  imports Main "HOL-Library.Char_ord" "HOL-Library.List_Lexorder" "HOL-Library.Sublist"
    "HOL-Library.AList"
begin

section \<open>The markdown renderer of server/events/markdown_renderer.go\<close>

text \<open>
  The file renders a \<open>CommandResponse\<close> as markdown through Go's \<open>text/template\<close>.
  Strings are byte lists, as Go strings are. The embedding has three layers:
  \<^item> the input types the renderer reads (\<open>CommandName\<close>, \<open>CommandResponse\<close>,
    \<open>ProjectResult\<close>), which the package declares in other files;
  \<^item> the part of \<open>strings.Title\<close> and of \<open>text/template\<close> that the file uses: the
    templates are kept as the node lists \<open>Parse\<close> produces and are run by an
    interpreter that can fail, as \<open>Execute\<close> can;
  \<^item> the three methods of \<open>MarkdownRenderer\<close>, written as the source has them.
\<close>

subsection \<open>Input types\<close>

text \<open>
  Modelled from the spec: the enumeration \<open>CommandName\<close> is declared outside
  markdown_renderer.go. The spec names its members Plan, Apply and Help.
\<close>

datatype CommandName = Plan | Apply | Help

text \<open>
  Modelled from the spec: \<open>CommandName.String()\<close> is declared outside
  markdown_renderer.go; the spec gives it as the lower-case name of the command.
  \<open>Render\<close> below takes the method as a parameter, so that general statements hold for
  every string form.
\<close>

fun CommandName_String :: "CommandName \<Rightarrow> string" where
  "CommandName_String Plan = ''plan''"
| "CommandName_String Apply = ''apply''"
| "CommandName_String Help = ''help''"

text \<open>
  Modelled from the spec: the types \<open>PlanSuccess\<close>, \<open>ProjectResult\<close> and
  \<open>CommandResponse\<close> are declared outside markdown_renderer.go. Their fields are the
  ones the spec lists, which are the ones the source reads. A Go \<open>error\<close> is
  \<open>None\<close> for nil and otherwise carries the message that \<open>Error()\<close> returns; the
  pointer \<open>*PlanSuccess\<close> is an option.
\<close>

record PlanSuccess =
  TerraformOutput :: string
  LockURL :: string

record ProjectResult =
  Path :: string
  Error :: "string option"
  Failure :: string
  PlanSuccess :: "PlanSuccess option"
  ApplySuccess :: string

record CommandResponse =
  Error :: "string option"
  Failure :: string
  ProjectResults :: "ProjectResult list"

subsection \<open>View types of the renderer\<close>

record CommonData =
  Command :: string
  Verbose :: bool
  Log :: string

record ErrData =
  Error :: string
  CommonData :: CommonData

record FailureData =
  Failure :: string
  CommonData :: CommonData

text \<open>
  A Go \<open>map[string]string\<close> is an association list with distinct keys: \<open>make\<close> is the
  empty list, \<open>m[k] = v\<close> is \<open>AList.update k v m\<close> (which overwrites the entry of
  a key already present), \<open>len m\<close> is the length of the list.
\<close>

type_synonym strmap = "(string \<times> string) list"

record ResultData =
  Results :: strmap
  CommonData :: CommonData

subsection \<open>strings.Title\<close>

text \<open>
  \<open>strings.Title\<close> maps over the runes of the string and remembers the previous rune,
  starting from a space: a rune that follows a separator is replaced by its title case.
  The model is exact on ASCII. \<open>strings.Title\<close> works on runes: outside ASCII it asks
  the Unicode tables whether a rune is a letter, a digit or a space and what its title
  case is, and it replaces a byte that is not valid UTF-8 by U+FFFD. The model has none of
  this: it takes a byte above 0x7F as a non-separator without title case. What is stated
  below about the result of \<open>Title\<close> is therefore stated for ASCII strings only; the
  other statements hold for whatever string \<open>Title\<close> returns.
\<close>

definition isSeparator :: "char \<Rightarrow> bool" where
  "isSeparator r =
     (if r \<le> CHR 0x7F then
        (if CHR ''0'' \<le> r \<and> r \<le> CHR ''9'' then False
         else if CHR ''a'' \<le> r \<and> r \<le> CHR ''z'' then False
         else if CHR ''A'' \<le> r \<and> r \<le> CHR ''Z'' then False
         else if r = CHR ''_'' then False
         else True)
      else False)"

definition ToTitle :: "char \<Rightarrow> char" where
  "ToTitle r =
     (if CHR ''a'' \<le> r \<and> r \<le> CHR ''z'' then char_of (of_char r - (32::nat)) else r)"

fun Title_from :: "char \<Rightarrow> string \<Rightarrow> string" where
  "Title_from prev [] = []"
| "Title_from prev (r # s) = (if isSeparator prev then ToTitle r else r) # Title_from r s"

definition Title :: "string \<Rightarrow> string" where
  "Title s = Title_from (CHR '' '') s"

subsection \<open>text/template: values, nodes and execution\<close>

text \<open>
  The values a template of this file can reach: the string, bool and
  \<open>map[string]string\<close> fields of the data, and \<open>NoValue\<close>, the invalid
  \<open>reflect.Value\<close> that a field of nil data evaluates to. The data itself is nil (the
  help template) or a struct, seen as reflection sees it: a list of field names and
  values, the fields of an embedded struct promoted.
\<close>

datatype val = Str string | Bool bool | StrMap strmap | NoValue

datatype data = NilData | StructData "(string \<times> val) list"

text \<open>
  The actions that occur in the templates of the file:
  \<open>Text\<close> is literal text, \<open>Field ''F''\<close> is \<open>{{.F}}\<close>, \<open>Var ''v''\<close> is \<open>{{$v}}\<close>,
  \<open>Len ''F''\<close> is \<open>{{len .F}}\<close>, \<open>If ''F'' body\<close> is \<open>{{if .F}}body{{end}}\<close>,
  \<open>Range1 ''v'' ''F'' body\<close> is \<open>{{range $v := .F}}body{{end}}\<close> and
  \<open>Range2 ''k'' ''v'' ''F'' body\<close> is \<open>{{range $k, $v := .F}}body{{end}}\<close>.
\<close>

datatype node =
    Text string
  | Field string
  | Var string
  | Len string
  | If string "node list"
  | Range1 string string "node list"
  | Range2 string string string "node list"

text \<open>
  The ways in which the execution of such a template can fail: a field that the struct
  does not have, a \<open>range\<close> over a value that is not a map, \<open>len\<close> of a value without
  a length. (A variable that is not declared is refused by \<open>Parse\<close> already; the
  interpreter reports it all the same, so that it is total on every node list.)
\<close>

datatype exec_error =
    NoField string
  | UndefinedVar string
  | CannotRange string
  | CannotLen string

text \<open>
  The text of the error that \<open>Execute\<close> returns, which \<open>%v\<close> prints. It is made by
  \<open>text/template\<close> from the name of the template, the line and column of the action, the
  pipeline and the Go type or value at fault. None of these is in the model, and the text
  is not written in markdown_renderer.go: it is left unspecified, so that nothing below
  says what the text is, only where it goes.
\<close>

definition error_text :: "exec_error \<Rightarrow> string" where
  "error_text = undefined"

text \<open>
  The field of a struct is its value, and an error when the struct has no such field. With
  nil data there is no receiver: \<open>text/template\<close> gives the invalid value and no
  error.
\<close>

fun field :: "data \<Rightarrow> string \<Rightarrow> exec_error + val" where
  "field NilData f = Inr NoValue"
| "field (StructData fs) f = (case map_of fs f of None \<Rightarrow> Inl (NoField f) | Some v \<Rightarrow> Inr v)"

text \<open>Decimal digits of a length, as \<open>fmt\<close> prints an int.\<close>

fun decimal :: "nat \<Rightarrow> string" where
  "decimal n =
     (if n < 10 then [''0123456789'' ! n]
      else decimal (n div 10) @ [''0123456789'' ! (n mod 10)])"

declare decimal.simps [simp del]

text \<open>
  Both \<open>range\<close> and \<open>fmt\<close> visit a map with string keys in ascending order of the keys
  (Go compares strings bytewise, which is the lexicographic order of byte lists).
\<close>

definition sorted_entries :: "strmap \<Rightarrow> (string \<times> string) list" where
  "sorted_entries m = sort_key fst m"

fun join :: "string \<Rightarrow> string list \<Rightarrow> string" where
  "join sep [] = []"
| "join sep [x] = x"
| "join sep (x # y # ys) = x @ sep @ join sep (y # ys)"

fun print_val :: "val \<Rightarrow> string" where
  "print_val (Str s) = s"
| "print_val (Bool b) = (if b then ''true'' else ''false'')"
| "print_val (StrMap m) =
     ''map['' @ join '' '' (map (\<lambda>(k, v). k @ '':'' @ v) (sorted_entries m)) @ '']''"
| "print_val NoValue = ''<no value>''"

fun truth :: "val \<Rightarrow> bool" where
  "truth (Str s) = (s \<noteq> [])"
| "truth (Bool b) = b"
| "truth (StrMap m) = (m \<noteq> [])"
| "truth NoValue = False"

fun builtin_len :: "string \<Rightarrow> val \<Rightarrow> exec_error + string" where
  "builtin_len f (Str s) = Inr (decimal (length s))"
| "builtin_len f (StrMap m) = Inr (decimal (length m))"
| "builtin_len f (Bool b) = Inl (CannotLen f)"
| "builtin_len f NoValue = Inl (CannotLen f)"

type_synonym env = "(string \<times> val) list"

text \<open>
  \<open>Execute\<close> writes the output of the nodes one after the other and stops at the first
  error. \<open>exec_entries\<close> is the loop of a \<open>range\<close> over the sorted entries of a map:
  the variables are bound to the key and the element (\<open>None\<close> for the key when the action
  declares one variable). The invalid value prints as \<open><no value>\<close>, is false in an
  \<open>if\<close>, is an empty sequence for \<open>range\<close> and has no \<open>len\<close>.
\<close>

function exec_node :: "env \<Rightarrow> data \<Rightarrow> node \<Rightarrow> exec_error + string"
  and exec :: "env \<Rightarrow> data \<Rightarrow> node list \<Rightarrow> exec_error + string"
  and exec_entries ::
    "env \<Rightarrow> data \<Rightarrow> string option \<Rightarrow> string \<Rightarrow> node list \<Rightarrow> (string \<times> string) list
      \<Rightarrow> exec_error + string"
where
  "exec_node vars d (Text s) = Inr s"
| "exec_node vars d (Field f) =
     (case field d f of Inl e \<Rightarrow> Inl e | Inr v \<Rightarrow> Inr (print_val v))"
| "exec_node vars d (Var x) =
     (case map_of vars x of None \<Rightarrow> Inl (UndefinedVar x) | Some v \<Rightarrow> Inr (print_val v))"
| "exec_node vars d (Len f) =
     (case field d f of Inl e \<Rightarrow> Inl e | Inr v \<Rightarrow> builtin_len f v)"
| "exec_node vars d (If f body) =
     (case field d f of Inl e \<Rightarrow> Inl e
      | Inr v \<Rightarrow> if truth v then exec vars d body else Inr [])"
| "exec_node vars d (Range1 x f body) =
     (case field d f of Inl e \<Rightarrow> Inl e
      | Inr (StrMap m) \<Rightarrow> exec_entries vars d None x body (sorted_entries m)
      | Inr NoValue \<Rightarrow> Inr []
      | Inr _ \<Rightarrow> Inl (CannotRange f))"
| "exec_node vars d (Range2 k x f body) =
     (case field d f of Inl e \<Rightarrow> Inl e
      | Inr (StrMap m) \<Rightarrow> exec_entries vars d (Some k) x body (sorted_entries m)
      | Inr NoValue \<Rightarrow> Inr []
      | Inr _ \<Rightarrow> Inl (CannotRange f))"
| "exec vars d [] = Inr []"
| "exec vars d (n # ns) =
     (case exec_node vars d n of Inl e \<Rightarrow> Inl e
      | Inr s \<Rightarrow> (case exec vars d ns of Inl e \<Rightarrow> Inl e | Inr t \<Rightarrow> Inr (s @ t)))"
| "exec_entries vars d ko x body [] = Inr []"
| "exec_entries vars d ko x body (kv # kvs) =
     (case exec ((x, Str (snd kv)) #
                 (case ko of None \<Rightarrow> vars | Some k \<Rightarrow> (k, Str (fst kv)) # vars)) d body of
        Inl e \<Rightarrow> Inl e
      | Inr s \<Rightarrow> (case exec_entries vars d ko x body kvs of
                    Inl e \<Rightarrow> Inl e | Inr t \<Rightarrow> Inr (s @ t)))"
  by pat_completeness auto
termination
  by (relation "measures
        [\<lambda>c. case c of Inl (_, _, n) \<Rightarrow> size n
                      | Inr (Inl (_, _, ns)) \<Rightarrow> size_list size ns
                      | Inr (Inr (_, _, _, _, body, _)) \<Rightarrow> size_list size body,
         \<lambda>c. case c of Inl _ \<Rightarrow> 0
                      | Inr (Inl _) \<Rightarrow> 0
                      | Inr (Inr (_, _, _, _, _, kvs)) \<Rightarrow> Suc (length kvs)]")
     auto

subsection \<open>The templates\<close>

text \<open>
  Each template is the node list that \<open>template.Must (template.New("").Parse text)\<close>
  yields for the text in the source. \<open>logTmpl\<close>, \<open>errTmplText\<close> and
  \<open>failureTmplText\<close> are template texts that the source concatenates before parsing;
  here their node lists are appended.
\<close>

definition logTmpl :: "node list" where
  "logTmpl =
     [If ''Verbose''
        [Text ''\<newline><details><summary>Log</summary>\<newline>  <p>\<newline>\<newline>```\<newline>'',
         Field ''Log'',
         Text ''```\<newline></p></details>''],
      Text ''\<newline>'']"

definition helpTmpl :: "node list" where
  "helpTmpl =
  [Text (''```cmake\<newline>'' @
   ''atlantis - Terraform collaboration tool that enables you to collaborate on infrastructure\<newline>'' @
   ''safely and securely.\<newline>'' @
   ''\<newline>'' @
   ''Usage: atlantis <command> [workspace] [--verbose]\<newline>'' @
   ''\<newline>'' @
   ''Commands:\<newline>'' @
   ''plan           Runs 'terraform plan' on the files changed in the pull request\<newline>'' @
   ''apply          Runs 'terraform apply' using the plans generated by 'atlantis plan'\<newline>'' @
   ''help           Get help\<newline>'' @
   ''\<newline>'' @
   ''Examples:\<newline>'' @
   ''\<newline>'' @
   ''# Generates a plan for staging workspace\<newline>'' @
   ''atlantis plan staging\<newline>'' @
   ''\<newline>'' @
   ''# Generates a plan for a standalone terraform project\<newline>'' @
   ''atlantis plan\<newline>'' @
   ''\<newline>'' @
   ''# Applies a plan for staging workspace\<newline>'' @
   ''atlantis apply staging\<newline>'' @
   ''\<newline>'' @
   ''# Applies a plan for a standalone terraform project\<newline>'' @
   ''atlantis apply\<newline>'')]"

definition singleProjectTmpl :: "node list" where
  "singleProjectTmpl =
     [Range1 ''result'' ''Results'' [Var ''result''], Text ''\<newline>''] @ logTmpl"

definition multiProjectTmpl :: "node list" where
  "multiProjectTmpl =
     [Text ''Ran '', Field ''Command'', Text '' in '', Len ''Results'',
      Text '' directories:\<newline>'',
      Range2 ''path'' ''result'' ''Results''
        [Text '' * `'', Var ''path'', Text ''`\<newline>''],
      Text ''\<newline>'',
      Range2 ''path'' ''result'' ''Results''
        [Text ''## '', Var ''path'', Text ''/\<newline>'',
         Var ''result'', Text ''\<newline>---\<newline>'']] @ logTmpl"

definition planSuccessTmpl :: "node list" where
  "planSuccessTmpl =
     [Text ''```diff\<newline>'', Field ''TerraformOutput'',
      Text ''\<newline>```\<newline>\<newline>* To **discard** this plan click [here]('',
      Field ''LockURL'', Text '').'']"

definition applySuccessTmpl :: "node list" where
  "applySuccessTmpl = [Text ''```diff\<newline>'', Field ''Output'', Text ''\<newline>```'']"

definition errTmplText :: "node list" where
  "errTmplText =
     [Text ''**'', Field ''Command'', Text '' Error**\<newline>```\<newline>'',
      Field ''Error'', Text ''\<newline>```\<newline>'']"

definition errTmpl :: "node list" where
  "errTmpl = errTmplText"

definition errWithLogTmpl :: "node list" where
  "errWithLogTmpl = errTmplText @ logTmpl"

definition failureTmplText :: "node list" where
  "failureTmplText =
     [Text ''**'', Field ''Command'', Text '' Failed**: '', Field ''Failure'',
      Text ''\<newline>'']"

definition failureTmpl :: "node list" where
  "failureTmpl = failureTmplText"

definition failureWithLogTmpl :: "node list" where
  "failureWithLogTmpl = failureTmplText @ logTmpl"

subsection \<open>The data passed to the templates\<close>

text \<open>
  What reflection shows of each struct the source passes to \<open>Execute\<close>. The fields of
  the embedded \<open>CommonData\<close> are promoted.
\<close>

definition CommonData_fields :: "CommonData \<Rightarrow> (string \<times> val) list" where
  "CommonData_fields c =
     [(''Command'', Str (Command c)), (''Verbose'', Bool (Verbose c)), (''Log'', Str (Log c))]"

definition ErrData_data :: "ErrData \<Rightarrow> data" where
  "ErrData_data e =
     StructData ((''Error'', Str (ErrData.Error e)) # CommonData_fields (ErrData.CommonData e))"

definition FailureData_data :: "FailureData \<Rightarrow> data" where
  "FailureData_data f =
     StructData ((''Failure'', Str (FailureData.Failure f)) #
                 CommonData_fields (FailureData.CommonData f))"

definition ResultData_data :: "ResultData \<Rightarrow> data" where
  "ResultData_data r =
     StructData ((''Results'', StrMap (Results r)) #
                 CommonData_fields (ResultData.CommonData r))"

definition PlanSuccess_data :: "PlanSuccess \<Rightarrow> data" where
  "PlanSuccess_data p =
     StructData [(''TerraformOutput'', Str (TerraformOutput p)), (''LockURL'', Str (LockURL p))]"

subsection \<open>The methods of MarkdownRenderer\<close>

definition renderTemplate :: "node list \<Rightarrow> data \<Rightarrow> string" where
  "renderTemplate tmpl d =
     (case exec [] d tmpl of
        Inl err \<Rightarrow> ''Failed to render template, this is a bug: '' @ error_text err
      | Inr buf \<Rightarrow> buf)"

text \<open>The value that one turn of the loop of \<open>renderProjectResults\<close> stores.\<close>

definition renderProjectResult :: "CommonData \<Rightarrow> ProjectResult \<Rightarrow> string" where
  "renderProjectResult common result =
     (case ProjectResult.Error result of
        Some err \<Rightarrow>
          renderTemplate errTmpl
            (StructData [(''Command'', Str (Command common)), (''Error'', Str err)])
      | None \<Rightarrow>
          if ProjectResult.Failure result \<noteq> [] then
            renderTemplate failureTmpl
              (StructData [(''Command'', Str (Command common)),
                           (''Failure'', Str (ProjectResult.Failure result))])
          else (case ProjectResult.PlanSuccess result of
            Some plan \<Rightarrow> renderTemplate planSuccessTmpl (PlanSuccess_data plan)
          | None \<Rightarrow>
              if ApplySuccess result \<noteq> [] then
                renderTemplate applySuccessTmpl (StructData [(''Output'', Str (ApplySuccess result))])
              else ''Found no template. This is a bug!''))"

text \<open>
  The loop of \<open>renderProjectResults\<close>: it starts from the empty map and stores, for each
  project result in turn, its rendering under its path.
\<close>

definition results_loop :: "ProjectResult list \<Rightarrow> CommonData \<Rightarrow> strmap" where
  "results_loop pathResults common =
     fold (\<lambda>result results.
             AList.update (Path result) (renderProjectResult common result) results)
       pathResults []"

definition renderProjectResults :: "ProjectResult list \<Rightarrow> CommonData \<Rightarrow> string" where
  "renderProjectResults pathResults common =
     (let results = results_loop pathResults common;
          tmpl = (if length results = 1 then singleProjectTmpl else multiProjectTmpl)
      in renderTemplate tmpl
           (ResultData_data \<lparr>Results = results, CommonData = common\<rparr>))"

text \<open>
  \<open>Render\<close>. Its first argument stands for the method \<open>String\<close> of \<open>CommandName\<close>.
\<close>

definition Render ::
  "(CommandName \<Rightarrow> string) \<Rightarrow> CommandResponse \<Rightarrow> CommandName \<Rightarrow> string \<Rightarrow> bool \<Rightarrow> string"
where
  "Render String res cmdName log verbose =
     (if cmdName = Help then renderTemplate helpTmpl NilData
      else
        let commandStr = Title (String cmdName);
            common = \<lparr>Command = commandStr, Verbose = verbose, Log = log\<rparr>
        in (case CommandResponse.Error res of
              Some err \<Rightarrow>
                renderTemplate errWithLogTmpl
                  (ErrData_data \<lparr>ErrData.Error = err, CommonData = common\<rparr>)
            | None \<Rightarrow>
                if CommandResponse.Failure res \<noteq> [] then
                  renderTemplate failureWithLogTmpl
                    (FailureData_data
                       \<lparr>FailureData.Failure = CommandResponse.Failure res, CommonData = common\<rparr>)
                else renderProjectResults (ProjectResults res) common))"

subsection \<open>Notions used to state the properties\<close>

text \<open>
  The text that the spec gives for the log fragment: when verbose, the \<open>details\<close> block
  around the log, and in both cases a final newline. \<open>exec_logTmpl\<close> below shows that
  \<open>logTmpl\<close> yields it.
\<close>

definition log_fragment :: "bool \<Rightarrow> string \<Rightarrow> string" where
  "log_fragment verbose log =
     (if verbose then
        ''\<newline><details><summary>Log</summary>\<newline>  <p>\<newline>\<newline>```\<newline>'' @ log @ ''```\<newline></p></details>''
      else []) @ ''\<newline>''"

text \<open>The number of positions of \<open>h\<close> at which \<open>n\<close> occurs.\<close>

fun occurrences :: "'a list \<Rightarrow> 'a list \<Rightarrow> nat" where
  "occurrences n [] = (if n = [] then 1 else 0)"
| "occurrences n (y # ys) = (if prefix n (y # ys) then 1 else 0) + occurrences n ys"

text \<open>The strings of a response that the templates can substitute.\<close>

definition ProjectResult_strings :: "ProjectResult \<Rightarrow> string list" where
  "ProjectResult_strings r =
     [Path r] @
     (case ProjectResult.Error r of None \<Rightarrow> [] | Some e \<Rightarrow> [e]) @
     [ProjectResult.Failure r] @
     (case ProjectResult.PlanSuccess r of None \<Rightarrow> [] | Some p \<Rightarrow> [TerraformOutput p, LockURL p]) @
     [ApplySuccess r]"

definition CommandResponse_strings :: "CommandResponse \<Rightarrow> string list" where
  "CommandResponse_strings res =
     (case CommandResponse.Error res of None \<Rightarrow> [] | Some e \<Rightarrow> [e]) @
     [CommandResponse.Failure res] @
     concat (map ProjectResult_strings (ProjectResults res))"

section \<open>Properties\<close>

subsection \<open>Running the templates\<close>

lemma exec_append:
  "exec vars d (ms @ ns) =
     (case exec vars d ms of Inl e \<Rightarrow> Inl e
      | Inr s \<Rightarrow> (case exec vars d ns of Inl e \<Rightarrow> Inl e | Inr t \<Rightarrow> Inr (s @ t)))"
  by (induction ms) (auto split: sum.splits)

lemma decimal_small [simp]:
  "decimal 0 = ''0''" "decimal (Suc 0) = ''1''" "decimal (Suc (Suc 0)) = ''2''" "decimal 2 = ''2''"
  by (simp_all add: decimal.simps)

lemma Title_plan: "Title ''plan'' = ''Plan''"
  by code_simp

lemma Title_apply: "Title ''apply'' = ''Apply''"
  by code_simp

lemma exec_logTmpl:
  "map_of fs ''Verbose'' = Some (Bool v) \<Longrightarrow> map_of fs ''Log'' = Some (Str l) \<Longrightarrow>
   exec vars (StructData fs) logTmpl = Inr (log_fragment v l)"
  by (simp add: logTmpl_def log_fragment_def)

lemma log_fragment_False: "log_fragment False l = ''\<newline>''"
  by (simp add: log_fragment_def)

lemma log_fragment_True:
  "log_fragment True l =
   ''\<newline><details><summary>Log</summary>\<newline>  <p>\<newline>\<newline>```\<newline>'' @ l @ ''```\<newline></p></details>\<newline>''"
  by (simp add: log_fragment_def)

lemma log_fragment_nonempty: "log_fragment v l \<noteq> []"
  by (simp add: log_fragment_def)

lemma render_errWithLogTmpl:
  "renderTemplate errWithLogTmpl (ErrData_data \<lparr>ErrData.Error = e, CommonData = c\<rparr>) =
   ''**'' @ Command c @ '' Error**\<newline>```\<newline>'' @ e @ ''\<newline>```\<newline>'' @
   log_fragment (Verbose c) (Log c)"
  by (simp add: renderTemplate_def errWithLogTmpl_def exec_append exec_logTmpl ErrData_data_def
      CommonData_fields_def errTmplText_def)

lemma render_failureWithLogTmpl:
  "renderTemplate failureWithLogTmpl
     (FailureData_data \<lparr>FailureData.Failure = f, CommonData = c\<rparr>) =
   ''**'' @ Command c @ '' Failed**: '' @ f @ ''\<newline>'' @ log_fragment (Verbose c) (Log c)"
  by (simp add: renderTemplate_def failureWithLogTmpl_def exec_append exec_logTmpl
      FailureData_data_def CommonData_fields_def failureTmplText_def)

lemma render_errTmpl:
  "renderTemplate errTmpl (StructData [(''Command'', Str c), (''Error'', Str e)]) =
   ''**'' @ c @ '' Error**\<newline>```\<newline>'' @ e @ ''\<newline>```\<newline>''"
  by (simp add: renderTemplate_def errTmpl_def errTmplText_def)

lemma render_failureTmpl:
  "renderTemplate failureTmpl (StructData [(''Command'', Str c), (''Failure'', Str f)]) =
   ''**'' @ c @ '' Failed**: '' @ f @ ''\<newline>''"
  by (simp add: renderTemplate_def failureTmpl_def failureTmplText_def)

lemma render_planSuccessTmpl:
  "renderTemplate planSuccessTmpl (PlanSuccess_data p) =
   ''```diff\<newline>'' @ TerraformOutput p @
   ''\<newline>```\<newline>\<newline>* To **discard** this plan click [here]('' @ LockURL p @ '').''"
  by (simp add: renderTemplate_def planSuccessTmpl_def PlanSuccess_data_def)

lemma render_applySuccessTmpl:
  "renderTemplate applySuccessTmpl (StructData [(''Output'', Str out)]) =
   ''```diff\<newline>'' @ out @ ''\<newline>```''"
  by (simp add: renderTemplate_def applySuccessTmpl_def)

lemma exec_entries_value:
  "exec_entries vars d None ''result'' [Var ''result''] kvs = Inr (concat (map snd kvs))"
  by (induction kvs) auto

lemma exec_entries_bullet:
  "exec_entries vars d (Some ''path'') ''result'' [Text a, Var ''path'', Text b] kvs =
     Inr (concat (map (\<lambda>kv. a @ fst kv @ b) kvs))"
  by (induction kvs) auto

lemma exec_entries_section:
  "exec_entries vars d (Some ''path'') ''result''
     [Text a, Var ''path'', Text b, Var ''result'', Text c] kvs =
     Inr (concat (map (\<lambda>kv. a @ fst kv @ b @ snd kv @ c) kvs))"
  by (induction kvs) auto

lemma render_singleProjectTmpl:
  "renderTemplate singleProjectTmpl (ResultData_data \<lparr>Results = m, CommonData = c\<rparr>) =
   concat (map snd (sorted_entries m)) @ ''\<newline>'' @ log_fragment (Verbose c) (Log c)"
  by (simp add: renderTemplate_def singleProjectTmpl_def exec_append exec_logTmpl
      ResultData_data_def CommonData_fields_def exec_entries_value)

lemma render_multiProjectTmpl:
  "renderTemplate multiProjectTmpl (ResultData_data \<lparr>Results = m, CommonData = c\<rparr>) =
   ''Ran '' @ Command c @ '' in '' @ decimal (length m) @ '' directories:\<newline>'' @
   concat (map (\<lambda>kv. '' * `'' @ fst kv @ ''`\<newline>'') (sorted_entries m)) @ ''\<newline>'' @
   concat (map (\<lambda>kv. ''## '' @ fst kv @ ''/\<newline>'' @ snd kv @ ''\<newline>---\<newline>'')
             (sorted_entries m)) @
   log_fragment (Verbose c) (Log c)"
  by (simp add: renderTemplate_def multiProjectTmpl_def exec_append exec_logTmpl
      ResultData_data_def CommonData_fields_def exec_entries_bullet exec_entries_section
     )

subsection \<open>The loop over the project results\<close>

lemma fold_update_distinct:
  "distinct (map fst acc) \<Longrightarrow>
   distinct (map fst (fold (\<lambda>r m. AList.update (k r) (g r) m) rs acc))"
  by (induction rs arbitrary: acc) (simp_all add: distinct_update)

lemma fold_update_keys:
  "fst ` set (fold (\<lambda>r m. AList.update (k r) (g r) m) rs acc) = k ` set rs \<union> fst ` set acc"
  by (induction rs arbitrary: acc) (auto simp: dom_update)

lemma fold_update_map_of:
  "map_of (fold (\<lambda>r m. AList.update (k r) (g r) m) rs acc) =
   map_of acc ++ map_of (rev (map (\<lambda>r. (k r, g r)) rs))"
proof (induction rs arbitrary: acc)
  case Nil
  show ?case by simp
next
  case (Cons r rs)
  have "map_of (AList.update (k r) (g r) acc) = map_of acc ++ [k r \<mapsto> g r]"
    by (simp add: update_conv')
  then show ?case
    by (simp add: Cons.IH map_add_assoc del: map_add_upd)
qed

lemma results_loop_distinct: "distinct (map fst (results_loop rs c))"
  unfolding results_loop_def by (rule fold_update_distinct) simp

lemma results_loop_keys: "set (map fst (results_loop rs c)) = set (map Path rs)"
  unfolding results_loop_def by (simp add: fold_update_keys)

lemma results_loop_length: "length (results_loop rs c) = length (remdups (map Path rs))"
proof -
  have "length (results_loop rs c) = length (map fst (results_loop rs c))" by simp
  also have "\<dots> = card (set (map fst (results_loop rs c)))"
    using results_loop_distinct [of rs c] by (simp only: distinct_card)
  also have "\<dots> = card (set (map Path rs))" by (simp only: results_loop_keys)
  also have "\<dots> = length (remdups (map Path rs))" by (simp only: length_remdups_card_conv)
  finally show ?thesis .
qed

lemma results_loop_map_of:
  "map_of (results_loop rs c) = map_of (rev (map (\<lambda>r. (Path r, renderProjectResult c r)) rs))"
  unfolding results_loop_def by (simp add: fold_update_map_of)

lemma results_loop_stored:
  assumes "Path r \<notin> Path ` set after"
  shows "map_of (results_loop (before @ r # after) c) (Path r) = Some (renderProjectResult c r)"
proof -
  have "map_of (rev (map (\<lambda>r. (Path r, renderProjectResult c r)) after)) (Path r) = None"
    using assms by (simp add: map_of_eq_None_iff image_image)
  then show ?thesis
    by (simp add: results_loop_map_of map_add_def)
qed

lemma results_loop_value:
  assumes "p \<in> Path ` set rs"
  shows "\<exists>r \<in> set rs. Path r = p \<and> map_of (results_loop rs c) p = Some (renderProjectResult c r)"
proof -
  from assms have "p \<in> fst ` set (rev (map (\<lambda>r. (Path r, renderProjectResult c r)) rs))"
    by (simp add: image_image)
  then obtain v where v: "map_of (rev (map (\<lambda>r. (Path r, renderProjectResult c r)) rs)) p = Some v"
    by (meson map_of_eq_None_iff not_Some_eq)
  then have "(p, v) \<in> set (rev (map (\<lambda>r. (Path r, renderProjectResult c r)) rs))"
    by (rule map_of_SomeD)
  then obtain r where "r \<in> set rs" "Path r = p" "v = renderProjectResult c r" by auto
  with v show ?thesis by (auto simp: results_loop_map_of)
qed

lemma distinct_map_insort_key:
  "distinct (map f (insort_key f x xs)) = (f x \<notin> f ` set xs \<and> distinct (map f xs))"
  by (induction xs) (auto simp: set_insort_key)

lemma distinct_map_sort_key: "distinct (map f (sort_key f xs)) = distinct (map f xs)"
  by (induction xs) (simp_all add: distinct_map_insort_key)

lemma sorted_entries_keys:
  assumes "distinct (map fst m)"
  shows "map fst (sorted_entries m) = sort (remdups (map fst m))"
proof (rule sorted_distinct_set_unique)
  show "sorted (map fst (sorted_entries m))" by (simp add: sorted_entries_def)
  show "distinct (map fst (sorted_entries m))"
    using assms by (simp add: sorted_entries_def distinct_map_sort_key)
qed (simp_all add: sorted_entries_def)

lemma sorted_entries_values:
  assumes "distinct (map fst m)"
  shows "map (\<lambda>kv. (fst kv, the (map_of m (fst kv)))) (sorted_entries m) = sorted_entries m"
proof (rule map_idI)
  fix kv assume "kv \<in> set (sorted_entries m)"
  then have "(fst kv, snd kv) \<in> set m" by (simp add: sorted_entries_def)
  with assms have "map_of m (fst kv) = Some (snd kv)" by (rule map_of_is_SomeI)
  then show "(fst kv, the (map_of m (fst kv))) = kv" by simp
qed

lemma sorted_entries_eq:
  assumes "distinct (map fst m)"
  shows "sorted_entries m = map (\<lambda>p. (p, the (map_of m p))) (sort (remdups (map fst m)))"
proof -
  have "sorted_entries m = map (\<lambda>kv. (fst kv, the (map_of m (fst kv)))) (sorted_entries m)"
    using assms by (simp only: sorted_entries_values)
  also have "\<dots> = map (\<lambda>p. (p, the (map_of m p))) (map fst (sorted_entries m))"
    by (simp add: comp_def)
  finally show ?thesis using assms by (simp only: sorted_entries_keys)
qed

lemma sort_remdups_set_eq: "set xs = set ys \<Longrightarrow> sort (remdups xs) = sort (remdups ys)"
  by (rule sorted_distinct_set_unique) simp_all

lemma results_loop_entries:
  "sorted_entries (results_loop rs c) =
   map (\<lambda>p. (p, the (map_of (results_loop rs c) p))) (sort (remdups (map Path rs)))"
proof -
  have "sort (remdups (map fst (results_loop rs c))) = sort (remdups (map Path rs))"
    by (rule sort_remdups_set_eq) (rule results_loop_keys)
  then show ?thesis
    using sorted_entries_eq [OF results_loop_distinct, of rs c] by simp
qed

subsection \<open>Closed forms of the three methods\<close>

lemma renderProjectResults_single:
  assumes "length (remdups (map Path rs)) = 1"
  shows "renderProjectResults rs c =
     concat (map (\<lambda>p. the (map_of (results_loop rs c) p)) (sort (remdups (map Path rs)))) @
     ''\<newline>'' @ log_fragment (Verbose c) (Log c)"
  using assms
  by (simp add: renderProjectResults_def results_loop_length render_singleProjectTmpl
      results_loop_entries comp_def)

lemma renderProjectResults_multi:
  assumes "length (remdups (map Path rs)) \<noteq> 1"
  shows "renderProjectResults rs c =
     ''Ran '' @ Command c @ '' in '' @ decimal (length (remdups (map Path rs))) @
     '' directories:\<newline>'' @
     concat (map (\<lambda>p. '' * `'' @ p @ ''`\<newline>'') (sort (remdups (map Path rs)))) @ ''\<newline>'' @
     concat (map (\<lambda>p. ''## '' @ p @ ''/\<newline>'' @ the (map_of (results_loop rs c) p) @
                       ''\<newline>---\<newline>'')
               (sort (remdups (map Path rs)))) @
     log_fragment (Verbose c) (Log c)"
  using assms
  by (simp add: renderProjectResults_def results_loop_length render_multiProjectTmpl
      results_loop_entries comp_def)

lemma Render_error:
  assumes "cmdName \<noteq> Help" and "CommandResponse.Error res = Some err"
  shows "Render String res cmdName log verbose =
     ''**'' @ Title (String cmdName) @ '' Error**\<newline>```\<newline>'' @ err @ ''\<newline>```\<newline>'' @
     log_fragment verbose log"
  using assms by (simp add: Render_def render_errWithLogTmpl)

lemma Render_failure:
  assumes "cmdName \<noteq> Help" and "CommandResponse.Error res = None"
    and "CommandResponse.Failure res \<noteq> []"
  shows "Render String res cmdName log verbose =
     ''**'' @ Title (String cmdName) @ '' Failed**: '' @ CommandResponse.Failure res @
     ''\<newline>'' @ log_fragment verbose log"
  using assms by (simp add: Render_def render_failureWithLogTmpl)

lemma Render_results:
  assumes "cmdName \<noteq> Help" and "CommandResponse.Error res = None"
    and "CommandResponse.Failure res = []"
  shows "Render String res cmdName log verbose =
     renderProjectResults (ProjectResults res)
       \<lparr>Command = Title (String cmdName), Verbose = verbose, Log = log\<rparr>"
  using assms by (simp add: Render_def)

subsection \<open>The help text\<close>

text \<open>
  C2. For the command Help, \<open>Render\<close> returns the rendered help template, the fixed
  usage text that opens a fenced \<open>cmake\<close> block, whatever the response, the log and the
  verbose flag are.
\<close>

theorem C2_help_precedence:
  "Render String res Help log verbose = renderTemplate helpTmpl NilData \<and>
   renderTemplate helpTmpl NilData =
   ''```cmake\<newline>'' @
   ''atlantis - Terraform collaboration tool that enables you to collaborate on infrastructure\<newline>'' @
   ''safely and securely.\<newline>'' @
   ''\<newline>'' @
   ''Usage: atlantis <command> [workspace] [--verbose]\<newline>'' @
   ''\<newline>'' @
   ''Commands:\<newline>'' @
   ''plan           Runs 'terraform plan' on the files changed in the pull request\<newline>'' @
   ''apply          Runs 'terraform apply' using the plans generated by 'atlantis plan'\<newline>'' @
   ''help           Get help\<newline>'' @
   ''\<newline>'' @
   ''Examples:\<newline>'' @
   ''\<newline>'' @
   ''# Generates a plan for staging workspace\<newline>'' @
   ''atlantis plan staging\<newline>'' @
   ''\<newline>'' @
   ''# Generates a plan for a standalone terraform project\<newline>'' @
   ''atlantis plan\<newline>'' @
   ''\<newline>'' @
   ''# Applies a plan for staging workspace\<newline>'' @
   ''atlantis apply staging\<newline>'' @
   ''\<newline>'' @
   ''# Applies a plan for a standalone terraform project\<newline>'' @
   ''atlantis apply\<newline>''"
  by (simp add: Render_def renderTemplate_def helpTmpl_def)

subsection \<open>Literal scenarios\<close>

text \<open>
  C4. A response whose error message is "boom", rendered for the command Plan with the
  log "L" and verbose off, is exactly the error block followed by the newline of the
  non-verbose log fragment.
\<close>

theorem C4_global_error_bytes:
  "Render CommandName_String
     \<lparr>CommandResponse.Error = Some ''boom'', Failure = [], ProjectResults = []\<rparr>
     Plan ''L'' False
   = ''**Plan Error**\<newline>```\<newline>boom\<newline>```\<newline>\<newline>''"
  by code_simp

text \<open>
  C5. A response with the single project result of path "./" and a plan success with
  output "+1" and lock URL "u", rendered for the command Plan with an empty log and
  verbose off, is exactly the plan block, the newline of the single-project template and
  the newline of the non-verbose log fragment.
\<close>

theorem C5_single_plan_success_bytes:
  "Render CommandName_String
     \<lparr>CommandResponse.Error = None, Failure = [],
      ProjectResults =
        [\<lparr>Path = ''./'', Error = None, Failure = [],
          PlanSuccess = Some \<lparr>TerraformOutput = ''+1'', LockURL = ''u''\<rparr>,
          ApplySuccess = []\<rparr>]\<rparr>
     Plan [] False
   = ''```diff\<newline>+1\<newline>```\<newline>\<newline>* To **discard** this plan click [here](u).\<newline>\<newline>''"
  by code_simp

subsection \<open>Totality and the failure notice\<close>

text \<open>
  Every execution that the three methods start succeeds: each template reads only fields
  that the data passed with it has.
\<close>

lemma exec_helpTmpl: "\<exists>s. exec [] NilData helpTmpl = Inr s"
  by (simp add: helpTmpl_def)

lemma exec_errWithLogTmpl: "\<exists>s. exec [] (ErrData_data ed) errWithLogTmpl = Inr s"
  by (simp add: errWithLogTmpl_def errTmplText_def exec_append exec_logTmpl ErrData_data_def
      CommonData_fields_def)

lemma exec_failureWithLogTmpl: "\<exists>s. exec [] (FailureData_data fd) failureWithLogTmpl = Inr s"
  by (simp add: failureWithLogTmpl_def failureTmplText_def exec_append exec_logTmpl
      FailureData_data_def CommonData_fields_def)

lemma exec_errTmpl:
  "\<exists>s. exec [] (StructData [(''Command'', Str c), (''Error'', Str e)]) errTmpl = Inr s"
  by (simp add: errTmpl_def errTmplText_def)

lemma exec_failureTmpl:
  "\<exists>s. exec [] (StructData [(''Command'', Str c), (''Failure'', Str f)]) failureTmpl = Inr s"
  by (simp add: failureTmpl_def failureTmplText_def)

lemma exec_planSuccessTmpl: "\<exists>s. exec [] (PlanSuccess_data p) planSuccessTmpl = Inr s"
  by (simp add: planSuccessTmpl_def PlanSuccess_data_def)

lemma exec_applySuccessTmpl:
  "\<exists>s. exec [] (StructData [(''Output'', Str out)]) applySuccessTmpl = Inr s"
  by (simp add: applySuccessTmpl_def)

lemma exec_singleProjectTmpl: "\<exists>s. exec [] (ResultData_data rd) singleProjectTmpl = Inr s"
  by (simp add: singleProjectTmpl_def exec_append exec_logTmpl ResultData_data_def
      CommonData_fields_def exec_entries_value)

lemma exec_multiProjectTmpl: "\<exists>s. exec [] (ResultData_data rd) multiProjectTmpl = Inr s"
  by (simp add: multiProjectTmpl_def exec_append exec_logTmpl ResultData_data_def
      CommonData_fields_def exec_entries_bullet exec_entries_section)

lemma renderProjectResults_nonempty: "renderProjectResults rs c \<noteq> []"
proof (cases "length (remdups (map Path rs)) = 1")
  case True
  then show ?thesis
    using renderProjectResults_single [of rs c] by (simp add: log_fragment_nonempty)
next
  case False
  then show ?thesis
    using renderProjectResults_multi [of rs c] by simp
qed

text \<open>
  C1. \<open>Render\<close> returns a non-empty string for every response, command name, log and
  verbose flag (as a HOL function it returns on every input; the model has no failing
  branch, since the source guards both dereferences). When the execution of a template
  fails, \<open>renderTemplate\<close> returns the notice "Failed to render template, this is a
  bug: " followed by the text of the error, and no error; when it succeeds,
  \<open>renderTemplate\<close> returns what was written. None of the executions that \<open>Render\<close>
  and \<open>renderProjectResults\<close> start fails, whatever the response is: the help template
  on nil data, the two templates with the log on their data, the four templates of a
  project result, and the single and multi-project templates on the result data.
\<close>

theorem C1_render_total:
  "Render String res cmdName log verbose \<noteq> [] \<and>
   (exec [] d tmpl = Inl err \<longrightarrow>
      renderTemplate tmpl d = ''Failed to render template, this is a bug: '' @ error_text err) \<and>
   (exec [] d tmpl = Inr buf \<longrightarrow> renderTemplate tmpl d = buf) \<and>
   (\<exists>s. exec [] NilData helpTmpl = Inr s) \<and>
   (\<exists>s. exec [] (ErrData_data ed) errWithLogTmpl = Inr s) \<and>
   (\<exists>s. exec [] (FailureData_data fd) failureWithLogTmpl = Inr s) \<and>
   (\<exists>s. exec [] (StructData [(''Command'', Str c), (''Error'', Str e)]) errTmpl = Inr s) \<and>
   (\<exists>s. exec [] (StructData [(''Command'', Str c), (''Failure'', Str f)]) failureTmpl = Inr s) \<and>
   (\<exists>s. exec [] (PlanSuccess_data p) planSuccessTmpl = Inr s) \<and>
   (\<exists>s. exec [] (StructData [(''Output'', Str out)]) applySuccessTmpl = Inr s) \<and>
   (\<exists>s. exec [] (ResultData_data rd) singleProjectTmpl = Inr s) \<and>
   (\<exists>s. exec [] (ResultData_data rd) multiProjectTmpl = Inr s)"
proof -
  have nonempty: "Render String res cmdName log verbose \<noteq> []"
  proof (cases "cmdName = Help")
    case True
    then show ?thesis by (simp add: Render_def renderTemplate_def helpTmpl_def)
  next
    case notHelp: False
    show ?thesis
    proof (cases "CommandResponse.Error res")
      case (Some e)
      with notHelp show ?thesis by (simp add: Render_error)
    next
      case None
      show ?thesis
      proof (cases "CommandResponse.Failure res = []")
        case True
        with notHelp None show ?thesis
          by (simp add: Render_results renderProjectResults_nonempty)
      next
        case False
        with notHelp None show ?thesis by (simp add: Render_failure)
      qed
    qed
  qed
  have notice: "exec [] d tmpl = Inl err \<longrightarrow>
      renderTemplate tmpl d = ''Failed to render template, this is a bug: '' @ error_text err"
    by (simp add: renderTemplate_def)
  have buffer: "exec [] d tmpl = Inr buf \<longrightarrow> renderTemplate tmpl d = buf"
    by (simp add: renderTemplate_def)
  from nonempty notice buffer show ?thesis
    by (intro conjI exec_helpTmpl exec_errWithLogTmpl exec_failureWithLogTmpl exec_errTmpl
        exec_failureTmpl exec_planSuccessTmpl exec_applySuccessTmpl exec_singleProjectTmpl
        exec_multiProjectTmpl)
qed

text \<open>
  The failing execution of the witness is \<open>errTmpl\<close> on a struct that has the field
  \<open>Command\<close> and lacks the field \<open>Error\<close>.
\<close>

theorem C1_render_total_witness:
  "Render CommandName_String
     \<lparr>CommandResponse.Error = None, Failure = [], ProjectResults = []\<rparr> Plan [] False \<noteq> [] \<and>
   exec [] (StructData [(''Command'', Str ''Plan'')]) errTmpl = Inl (NoField ''Error'') \<and>
   renderTemplate errTmpl (StructData [(''Command'', Str ''Plan'')]) =
     ''Failed to render template, this is a bug: '' @ error_text (NoField ''Error'') \<and>
   prefix ''Failed to render template, this is a bug: ''
     (renderTemplate errTmpl (StructData [(''Command'', Str ''Plan'')])) \<and>
   exec [] (StructData [(''Command'', Str ''Plan''), (''Error'', Str ''x'')]) errTmpl =
     Inr ''**Plan Error**\<newline>```\<newline>x\<newline>```\<newline>'' \<and>
   renderTemplate errTmpl (StructData [(''Command'', Str ''Plan''), (''Error'', Str ''x'')]) =
     ''**Plan Error**\<newline>```\<newline>x\<newline>```\<newline>''"
proof -
  let ?res = "\<lparr>CommandResponse.Error = None, Failure = [], ProjectResults = []\<rparr>"
  let ?d1 = "StructData [(''Command'', Str ''Plan'')]"
  let ?d2 = "StructData [(''Command'', Str ''Plan''), (''Error'', Str ''x'')]"
  have h1: "exec [] ?d1 errTmpl = Inl (NoField ''Error'')"
    by (simp add: errTmpl_def errTmplText_def)
  have h2: "exec [] ?d2 errTmpl = Inr ''**Plan Error**\<newline>```\<newline>x\<newline>```\<newline>''"
    by (simp add: errTmpl_def errTmplText_def)
  note a = C1_render_total [where String = CommandName_String and res = ?res and cmdName = Plan
      and log = "[]" and verbose = False and d = ?d1 and tmpl = errTmpl
      and err = "NoField ''Error''"]
  note b = C1_render_total [where d = ?d2 and tmpl = errTmpl
      and buf = "''**Plan Error**\<newline>```\<newline>x\<newline>```\<newline>''"]
  have n: "Render CommandName_String ?res Plan [] False \<noteq> []"
    using a by (rule conjunct1)
  have f: "renderTemplate errTmpl ?d1 =
      ''Failed to render template, this is a bug: '' @ error_text (NoField ''Error'')"
    using a [THEN conjunct2, THEN conjunct1] h1 by (rule mp)
  have s: "renderTemplate errTmpl ?d2 = ''**Plan Error**\<newline>```\<newline>x\<newline>```\<newline>''"
    using b [THEN conjunct2, THEN conjunct2, THEN conjunct1] h2 by (rule mp)
  have p: "prefix ''Failed to render template, this is a bug: '' (renderTemplate errTmpl ?d1)"
    unfolding f by (rule prefixI) simp
  from n h1 f p h2 s show ?thesis by blast
qed

subsection \<open>Dispatch\<close>

text \<open>
  C3. For a command other than Help: when the response has an error, the output is the
  rendering of \<open>errWithLogTmpl\<close> on its message, and neither \<open>Failure\<close> nor
  \<open>ProjectResults\<close> has an effect on it; otherwise, when \<open>Failure\<close> is not empty, the
  output is the rendering of \<open>failureWithLogTmpl\<close> on it, and \<open>ProjectResults\<close> has no
  effect; only otherwise are the project results rendered.
\<close>

theorem C3_dispatch_precedence:
  assumes "cmdName \<noteq> Help"
  shows
   "(CommandResponse.Error res = Some err \<longrightarrow>
       Render String res cmdName log verbose =
         renderTemplate errWithLogTmpl
           (ErrData_data \<lparr>ErrData.Error = err,
              CommonData = \<lparr>Command = Title (String cmdName), Verbose = verbose, Log = log\<rparr>\<rparr>) \<and>
       renderTemplate errWithLogTmpl
           (ErrData_data \<lparr>ErrData.Error = err,
              CommonData = \<lparr>Command = Title (String cmdName), Verbose = verbose, Log = log\<rparr>\<rparr>) =
         ''**'' @ Title (String cmdName) @ '' Error**\<newline>```\<newline>'' @ err @ ''\<newline>```\<newline>'' @
         log_fragment verbose log \<and>
       Render String (res\<lparr>CommandResponse.Failure := f, ProjectResults := prs\<rparr>) cmdName log verbose =
         Render String res cmdName log verbose) \<and>
    (CommandResponse.Error res = None \<and> CommandResponse.Failure res \<noteq> [] \<longrightarrow>
       Render String res cmdName log verbose =
         renderTemplate failureWithLogTmpl
           (FailureData_data \<lparr>FailureData.Failure = CommandResponse.Failure res,
              CommonData = \<lparr>Command = Title (String cmdName), Verbose = verbose, Log = log\<rparr>\<rparr>) \<and>
       renderTemplate failureWithLogTmpl
           (FailureData_data \<lparr>FailureData.Failure = CommandResponse.Failure res,
              CommonData = \<lparr>Command = Title (String cmdName), Verbose = verbose, Log = log\<rparr>\<rparr>) =
         ''**'' @ Title (String cmdName) @ '' Failed**: '' @ CommandResponse.Failure res @
         ''\<newline>'' @ log_fragment verbose log \<and>
       Render String (res\<lparr>ProjectResults := prs\<rparr>) cmdName log verbose =
         Render String res cmdName log verbose) \<and>
    (CommandResponse.Error res = None \<and> CommandResponse.Failure res = [] \<longrightarrow>
       Render String res cmdName log verbose =
         renderProjectResults (ProjectResults res)
           \<lparr>Command = Title (String cmdName), Verbose = verbose, Log = log\<rparr>)"
  using assms by (simp add: Render_def render_errWithLogTmpl render_failureWithLogTmpl)

theorem C3_dispatch_precedence_witness:
  "Plan \<noteq> Help \<and>
   Render CommandName_String
     \<lparr>CommandResponse.Error = Some ''boom'', Failure = ''nope'',
      ProjectResults = [\<lparr>Path = ''p'', Error = None, Failure = [], PlanSuccess = None,
                         ApplySuccess = ''done''\<rparr>]\<rparr> Plan ''L'' False =
     ''**Plan Error**\<newline>```\<newline>boom\<newline>```\<newline>\<newline>'' \<and>
   Render CommandName_String
     \<lparr>CommandResponse.Error = Some ''boom'', Failure = [], ProjectResults = []\<rparr> Plan ''L'' False =
     ''**Plan Error**\<newline>```\<newline>boom\<newline>```\<newline>\<newline>'' \<and>
   Render CommandName_String
     \<lparr>CommandResponse.Error = None, Failure = ''nope'',
      ProjectResults = [\<lparr>Path = ''p'', Error = None, Failure = [], PlanSuccess = None,
                         ApplySuccess = ''done''\<rparr>]\<rparr> Plan ''L'' False =
     ''**Plan Failed**: nope\<newline>\<newline>'' \<and>
   Render CommandName_String
     \<lparr>CommandResponse.Error = None, Failure = ''nope'', ProjectResults = []\<rparr> Plan ''L'' False =
     ''**Plan Failed**: nope\<newline>\<newline>'' \<and>
   Render CommandName_String
     \<lparr>CommandResponse.Error = None, Failure = [],
      ProjectResults = [\<lparr>Path = ''p'', Error = None, Failure = [], PlanSuccess = None,
                         ApplySuccess = ''done''\<rparr>]\<rparr> Plan ''L'' False =
     renderProjectResults
       [\<lparr>Path = ''p'', Error = None, Failure = [], PlanSuccess = None, ApplySuccess = ''done''\<rparr>]
       \<lparr>Command = ''Plan'', Verbose = False, Log = ''L''\<rparr>"
proof -
  have h: "Plan \<noteq> Help" by simp
  from
    C3_dispatch_precedence [OF h, of
      "\<lparr>CommandResponse.Error = Some ''boom'', Failure = ''nope'',
        ProjectResults = [\<lparr>Path = ''p'', Error = None, Failure = [], PlanSuccess = None,
                           ApplySuccess = ''done''\<rparr>]\<rparr>"
      "''boom''" CommandName_String "''L''" False "[]" "[]"]
    C3_dispatch_precedence [OF h, of
      "\<lparr>CommandResponse.Error = None, Failure = ''nope'',
        ProjectResults = [\<lparr>Path = ''p'', Error = None, Failure = [], PlanSuccess = None,
                           ApplySuccess = ''done''\<rparr>]\<rparr>"
      "''boom''" CommandName_String "''L''" False "[]" "[]"]
    C3_dispatch_precedence [OF h, of
      "\<lparr>CommandResponse.Error = None, Failure = [],
        ProjectResults = [\<lparr>Path = ''p'', Error = None, Failure = [], PlanSuccess = None,
                           ApplySuccess = ''done''\<rparr>]\<rparr>"
      "''boom''" CommandName_String "''L''" False "[]" "[]"]
  show ?thesis by (simp add: Title_plan log_fragment_False)
qed

subsection \<open>The rendering of one project result\<close>

text \<open>
  C9. A project result is rendered by the first of \<open>Error\<close>, \<open>Failure\<close>,
  \<open>PlanSuccess\<close> and \<open>ApplySuccess\<close> that is populated, with the template of that
  field; when none is, the string "Found no template. This is a bug!" takes the place of
  the rendering. The loop stores the rendering under the path of the result (the last
  result of a path is the one that stays).
\<close>

theorem C9_project_variant_selection:
  "renderProjectResult common r =
     (case ProjectResult.Error r of
        Some err \<Rightarrow> ''**'' @ Command common @ '' Error**\<newline>```\<newline>'' @ err @ ''\<newline>```\<newline>''
      | None \<Rightarrow>
          if ProjectResult.Failure r \<noteq> [] then
            ''**'' @ Command common @ '' Failed**: '' @ ProjectResult.Failure r @ ''\<newline>''
          else (case ProjectResult.PlanSuccess r of
            Some plan \<Rightarrow>
              ''```diff\<newline>'' @ TerraformOutput plan @
              ''\<newline>```\<newline>\<newline>* To **discard** this plan click [here]('' @ LockURL plan @ '').''
          | None \<Rightarrow>
              if ApplySuccess r \<noteq> [] then ''```diff\<newline>'' @ ApplySuccess r @ ''\<newline>```''
              else ''Found no template. This is a bug!'')) \<and>
   (case ProjectResult.Error r of
      Some err \<Rightarrow>
        renderTemplate errTmpl
          (StructData [(''Command'', Str (Command common)), (''Error'', Str err)])
    | None \<Rightarrow>
        if ProjectResult.Failure r \<noteq> [] then
          renderTemplate failureTmpl
            (StructData [(''Command'', Str (Command common)),
                         (''Failure'', Str (ProjectResult.Failure r))])
        else (case ProjectResult.PlanSuccess r of
          Some plan \<Rightarrow> renderTemplate planSuccessTmpl (PlanSuccess_data plan)
        | None \<Rightarrow>
            if ApplySuccess r \<noteq> [] then
              renderTemplate applySuccessTmpl (StructData [(''Output'', Str (ApplySuccess r))])
            else ''Found no template. This is a bug!'')) =
     renderProjectResult common r \<and>
   (Path r \<notin> Path ` set after \<longrightarrow>
      map_of (results_loop (before @ r # after) common) (Path r) =
        Some (renderProjectResult common r))"
proof (intro conjI)
  show "renderProjectResult common r =
     (case ProjectResult.Error r of
        Some err \<Rightarrow> ''**'' @ Command common @ '' Error**\<newline>```\<newline>'' @ err @ ''\<newline>```\<newline>''
      | None \<Rightarrow>
          if ProjectResult.Failure r \<noteq> [] then
            ''**'' @ Command common @ '' Failed**: '' @ ProjectResult.Failure r @ ''\<newline>''
          else (case ProjectResult.PlanSuccess r of
            Some plan \<Rightarrow>
              ''```diff\<newline>'' @ TerraformOutput plan @
              ''\<newline>```\<newline>\<newline>* To **discard** this plan click [here]('' @ LockURL plan @ '').''
          | None \<Rightarrow>
              if ApplySuccess r \<noteq> [] then ''```diff\<newline>'' @ ApplySuccess r @ ''\<newline>```''
              else ''Found no template. This is a bug!''))"
    by (simp add: renderProjectResult_def render_errTmpl render_failureTmpl
        render_planSuccessTmpl render_applySuccessTmpl split: option.splits)
  show "(case ProjectResult.Error r of
      Some err \<Rightarrow>
        renderTemplate errTmpl
          (StructData [(''Command'', Str (Command common)), (''Error'', Str err)])
    | None \<Rightarrow>
        if ProjectResult.Failure r \<noteq> [] then
          renderTemplate failureTmpl
            (StructData [(''Command'', Str (Command common)),
                         (''Failure'', Str (ProjectResult.Failure r))])
        else (case ProjectResult.PlanSuccess r of
          Some plan \<Rightarrow> renderTemplate planSuccessTmpl (PlanSuccess_data plan)
        | None \<Rightarrow>
            if ApplySuccess r \<noteq> [] then
              renderTemplate applySuccessTmpl (StructData [(''Output'', Str (ApplySuccess r))])
            else ''Found no template. This is a bug!'')) =
     renderProjectResult common r"
    by (simp only: renderProjectResult_def)
  show "Path r \<notin> Path ` set after \<longrightarrow>
      map_of (results_loop (before @ r # after) common) (Path r) =
        Some (renderProjectResult common r)"
    by (simp add: results_loop_stored)
qed

theorem C9_project_variant_selection_witness:
  "renderProjectResult \<lparr>Command = ''Plan'', Verbose = False, Log = []\<rparr>
     \<lparr>Path = ''p'', Error = None, Failure = [], PlanSuccess = None, ApplySuccess = []\<rparr> =
     ''Found no template. This is a bug!'' \<and>
   renderProjectResult \<lparr>Command = ''Plan'', Verbose = False, Log = []\<rparr>
     \<lparr>Path = ''q'', Error = Some ''x'', Failure = ''f'',
      PlanSuccess = Some \<lparr>TerraformOutput = ''+1'', LockURL = ''u''\<rparr>, ApplySuccess = ''done''\<rparr> =
     ''**Plan Error**\<newline>```\<newline>x\<newline>```\<newline>'' \<and>
   ''p'' \<notin> Path ` set [\<lparr>Path = ''q'', Error = Some ''x'', Failure = ''f'',
      PlanSuccess = Some \<lparr>TerraformOutput = ''+1'', LockURL = ''u''\<rparr>, ApplySuccess = ''done''\<rparr>] \<and>
   map_of (results_loop
      [\<lparr>Path = ''p'', Error = None, Failure = [], PlanSuccess = None, ApplySuccess = []\<rparr>,
       \<lparr>Path = ''q'', Error = Some ''x'', Failure = ''f'',
        PlanSuccess = Some \<lparr>TerraformOutput = ''+1'', LockURL = ''u''\<rparr>, ApplySuccess = ''done''\<rparr>]
      \<lparr>Command = ''Plan'', Verbose = False, Log = []\<rparr>) ''p'' =
     Some ''Found no template. This is a bug!''"
proof -
  let ?c = "\<lparr>Command = ''Plan'', Verbose = False, Log = []\<rparr>"
  let ?p = "\<lparr>Path = ''p'', Error = None, Failure = [], PlanSuccess = None, ApplySuccess = []\<rparr>"
  let ?q = "\<lparr>Path = ''q'', Error = Some ''x'', Failure = ''f'',
             PlanSuccess = Some \<lparr>TerraformOutput = ''+1'', LockURL = ''u''\<rparr>,
             ApplySuccess = ''done''\<rparr>"
  have a: "renderProjectResult ?c ?p = ''Found no template. This is a bug!''"
    using C9_project_variant_selection [where common = ?c and r = ?p, THEN conjunct1]
    by simp
  have b: "renderProjectResult ?c ?q = ''**Plan Error**\<newline>```\<newline>x\<newline>```\<newline>''"
    using C9_project_variant_selection [where common = ?c and r = ?q, THEN conjunct1]
    by simp
  have h: "''p'' \<notin> Path ` set [?q]" by simp
  have st: "map_of (results_loop [?p, ?q] ?c) ''p'' = Some (renderProjectResult ?c ?p)"
    using h C9_project_variant_selection [where common = ?c and r = ?p and after = "[?q]"
        and before = "[]", THEN conjunct2, THEN conjunct2]
    by simp
  from a b h st show ?thesis by simp
qed

subsection \<open>The order of the projects\<close>

lemma results_loop_last:
  "p \<in> Path ` set rs \<Longrightarrow>
   map_of (results_loop rs c) p =
     Some (renderProjectResult c (last (filter (\<lambda>r. Path r = p) rs)))"
proof (induction rs rule: rev_induct)
  case Nil
  then show ?case by simp
next
  case (snoc r rs)
  show ?case
  proof (cases "Path r = p")
    case True
    then show ?thesis by (simp add: results_loop_map_of)
  next
    case False
    with snoc.prems have "p \<in> Path ` set rs" by auto
    with snoc.IH False show ?thesis by (simp add: results_loop_map_of)
  qed
qed

lemma length_remdups_set_eq: "set xs = set ys \<Longrightarrow> length (remdups xs) = length (remdups ys)"
  by (simp add: length_remdups_card_conv)

lemma renderProjectResults_cong:
  assumes "set (map Path prs) = set (map Path rs)"
    and "map_of (results_loop prs c) = map_of (results_loop rs c)"
  shows "renderProjectResults prs c = renderProjectResults rs c"
proof -
  have s: "sort (remdups (map Path prs)) = sort (remdups (map Path rs))"
    using assms(1) by (rule sort_remdups_set_eq)
  have l: "length (remdups (map Path prs)) = length (remdups (map Path rs))"
    using assms(1) by (rule length_remdups_set_eq)
  show ?thesis
  proof (cases "length (remdups (map Path rs)) = 1")
    case True
    with l have "length (remdups (map Path prs)) = 1" by simp
    then show ?thesis
      using True by (simp only: renderProjectResults_single s assms(2))
  next
    case False
    with l have "length (remdups (map Path prs)) \<noteq> 1" by simp
    then show ?thesis
      using False by (simp only: renderProjectResults_multi s l assms(2))
  qed
qed

lemma results_loop_permute:
  assumes "set prs = set rs" and "distinct (map Path prs)" and "distinct (map Path rs)"
  shows "map_of (results_loop prs c) = map_of (results_loop rs c)"
proof -
  let ?g = "\<lambda>r. (Path r, renderProjectResult c r)"
  have "map_of (rev (map ?g prs)) = map_of (rev (map ?g rs))"
  proof (rule map_of_inject_set [THEN iffD2])
    show "distinct (map fst (rev (map ?g prs)))"
      using assms(2) by (simp add: rev_map [symmetric] comp_def)
    show "distinct (map fst (rev (map ?g rs)))"
      using assms(3) by (simp add: rev_map [symmetric] comp_def)
    show "set (rev (map ?g prs)) = set (rev (map ?g rs))"
      using assms(1) by simp
  qed
  then show ?thesis by (simp only: results_loop_map_of)
qed

lemma sections_last:
  "concat (map (\<lambda>p. a @ p @ b @ the (map_of (results_loop rs c) p) @ e)
             (sort (remdups (map Path rs)))) =
   concat (map (\<lambda>p. a @ p @ b @
                    renderProjectResult c (last (filter (\<lambda>r. Path r = p) rs)) @ e)
             (sort (remdups (map Path rs))))"
  by (rule arg_cong [where f = concat], rule map_cong [OF refl])
     (simp add: results_loop_last)

text \<open>
  C10. With two or more distinct paths and a command other than Help, no error and no
  failure, the output is the header with the number of distinct paths, one bullet for each
  path, and one section for each path, both in the same strictly ascending lexicographic
  order of the paths (a \<open>range\<close> over a map visits its keys sorted); the section of a
  path holds the rendering of the last result of that path. The order does not depend on
  the order of the results in the input, and when the paths of the results are pairwise
  distinct neither does the output.
\<close>

theorem C10_sorted_paths:
  assumes "cmdName \<noteq> Help"
    and "CommandResponse.Error res = None"
    and "CommandResponse.Failure res = []"
    and "2 \<le> length (remdups (map Path (ProjectResults res)))"
    and "paths = sort (remdups (map Path (ProjectResults res)))"
    and "common = \<lparr>Command = Title (String cmdName), Verbose = verbose, Log = log\<rparr>"
  shows
   "Render String res cmdName log verbose =
      ''Ran '' @ Title (String cmdName) @ '' in '' @ decimal (length paths) @
      '' directories:\<newline>'' @
      concat (map (\<lambda>p. '' * `'' @ p @ ''`\<newline>'') paths) @ ''\<newline>'' @
      concat (map (\<lambda>p. ''## '' @ p @ ''/\<newline>'' @
                        renderProjectResult common
                          (last (filter (\<lambda>r. Path r = p) (ProjectResults res))) @
                        ''\<newline>---\<newline>'') paths) @
      log_fragment verbose log \<and>
    sorted_wrt (<) paths \<and>
    set paths = Path ` set (ProjectResults res) \<and>
    (set prs = set (ProjectResults res) \<and> distinct (map Path prs) \<and>
     distinct (map Path (ProjectResults res)) \<longrightarrow>
       Render String (res\<lparr>ProjectResults := prs\<rparr>) cmdName log verbose =
       Render String res cmdName log verbose)"
proof (intro conjI impI)
  have n: "length (remdups (map Path (ProjectResults res))) \<noteq> 1"
    using assms(4) by simp
  have "Render String res cmdName log verbose = renderProjectResults (ProjectResults res) common"
    unfolding assms(6) using assms(1-3) by (rule Render_results)
  also have "\<dots> =
      ''Ran '' @ Command common @ '' in '' @ decimal (length (remdups (map Path (ProjectResults res)))) @
      '' directories:\<newline>'' @
      concat (map (\<lambda>p. '' * `'' @ p @ ''`\<newline>'') paths) @ ''\<newline>'' @
      concat (map (\<lambda>p. ''## '' @ p @ ''/\<newline>'' @
                        renderProjectResult common
                          (last (filter (\<lambda>r. Path r = p) (ProjectResults res))) @
                        ''\<newline>---\<newline>'') paths) @
      log_fragment (Verbose common) (Log common)"
    unfolding assms(5) sections_last [symmetric] using n by (rule renderProjectResults_multi)
  finally show "Render String res cmdName log verbose =
      ''Ran '' @ Title (String cmdName) @ '' in '' @ decimal (length paths) @
      '' directories:\<newline>'' @
      concat (map (\<lambda>p. '' * `'' @ p @ ''`\<newline>'') paths) @ ''\<newline>'' @
      concat (map (\<lambda>p. ''## '' @ p @ ''/\<newline>'' @
                        renderProjectResult common
                          (last (filter (\<lambda>r. Path r = p) (ProjectResults res))) @
                        ''\<newline>---\<newline>'') paths) @
      log_fragment verbose log"
    by (simp add: assms(5,6))
next
  show "sorted_wrt (<) paths"
    by (simp add: assms(5) strict_sorted_iff)
next
  show "set paths = Path ` set (ProjectResults res)"
    by (simp add: assms(5))
next
  assume p: "set prs = set (ProjectResults res) \<and> distinct (map Path prs) \<and>
     distinct (map Path (ProjectResults res))"
  have "renderProjectResults prs common = renderProjectResults (ProjectResults res) common"
  proof (rule renderProjectResults_cong)
    show "set (map Path prs) = set (map Path (ProjectResults res))" using p by simp
    show "map_of (results_loop prs common) = map_of (results_loop (ProjectResults res) common)"
      using p by (intro results_loop_permute) simp_all
  qed
  then show "Render String (res\<lparr>ProjectResults := prs\<rparr>) cmdName log verbose =
       Render String res cmdName log verbose"
    using assms(1-3) by (simp add: Render_results assms(6))
qed

theorem C10_sorted_paths_witness:
  "Apply \<noteq> Help \<and>
   2 \<le> length (remdups (map Path
      [\<lparr>Path = ''b'', Error = None, Failure = ''locked'', PlanSuccess = None, ApplySuccess = []\<rparr>,
       \<lparr>Path = ''a'', Error = None, Failure = [], PlanSuccess = None, ApplySuccess = ''done''\<rparr>])) \<and>
   sort (remdups (map Path
      [\<lparr>Path = ''b'', Error = None, Failure = ''locked'', PlanSuccess = None, ApplySuccess = []\<rparr>,
       \<lparr>Path = ''a'', Error = None, Failure = [], PlanSuccess = None, ApplySuccess = ''done''\<rparr>]))
     = [''a'', ''b''] \<and>
   Render CommandName_String
     \<lparr>CommandResponse.Error = None, Failure = [],
      ProjectResults =
        [\<lparr>Path = ''b'', Error = None, Failure = ''locked'', PlanSuccess = None, ApplySuccess = []\<rparr>,
         \<lparr>Path = ''a'', Error = None, Failure = [], PlanSuccess = None, ApplySuccess = ''done''\<rparr>]\<rparr>
     Apply [] False =
     ''Ran Apply in 2 directories:\<newline> * `a`\<newline> * `b`\<newline>\<newline>'' @
     ''## a/\<newline>```diff\<newline>done\<newline>```\<newline>---\<newline>'' @
     ''## b/\<newline>**Apply Failed**: locked\<newline>\<newline>---\<newline>'' @ ''\<newline>'' \<and>
   Render CommandName_String
     \<lparr>CommandResponse.Error = None, Failure = [],
      ProjectResults =
        [\<lparr>Path = ''a'', Error = None, Failure = [], PlanSuccess = None, ApplySuccess = ''done''\<rparr>,
         \<lparr>Path = ''b'', Error = None, Failure = ''locked'', PlanSuccess = None, ApplySuccess = []\<rparr>]\<rparr>
     Apply [] False =
   Render CommandName_String
     \<lparr>CommandResponse.Error = None, Failure = [],
      ProjectResults =
        [\<lparr>Path = ''b'', Error = None, Failure = ''locked'', PlanSuccess = None, ApplySuccess = []\<rparr>,
         \<lparr>Path = ''a'', Error = None, Failure = [], PlanSuccess = None, ApplySuccess = ''done''\<rparr>]\<rparr>
     Apply [] False"
proof -
  let ?b = "\<lparr>Path = ''b'', Error = None, Failure = ''locked'', PlanSuccess = None, ApplySuccess = []\<rparr>"
  let ?a = "\<lparr>Path = ''a'', Error = None, Failure = [], PlanSuccess = None, ApplySuccess = ''done''\<rparr>"
  let ?res = "\<lparr>CommandResponse.Error = None, Failure = [], ProjectResults = [?b, ?a]\<rparr>"
  have h1: "Apply \<noteq> Help" by simp
  have h2: "CommandResponse.Error ?res = None" by simp
  have h3: "CommandResponse.Failure ?res = []" by simp
  have h4: "2 \<le> length (remdups (map Path (ProjectResults ?res)))" by simp
  have h5: "[''a'', ''b''] = sort (remdups (map Path (ProjectResults ?res)))" by simp
  have h6: "\<lparr>Command = ''Apply'', Verbose = False, Log = []\<rparr> =
            \<lparr>Command = Title (CommandName_String Apply), Verbose = False, Log = []\<rparr>"
    by (simp add: Title_apply)
  from h4 h5
    C10_sorted_paths [where String = CommandName_String and cmdName = Apply and res = ?res
      and log = "[]" and verbose = False and prs = "[?a, ?b]", OF h1 h2 h3 h4 h5 h6]
  show ?thesis
    by (simp add: renderProjectResult_def render_applySuccessTmpl render_failureTmpl
        Title_apply log_fragment_False insert_commute)
qed

subsection \<open>Single-project and multi-project framing\<close>

lemma renderProjectResult_closed:
  "renderProjectResult common r =
     (case ProjectResult.Error r of
        Some err \<Rightarrow> ''**'' @ Command common @ '' Error**\<newline>```\<newline>'' @ err @ ''\<newline>```\<newline>''
      | None \<Rightarrow>
          if ProjectResult.Failure r \<noteq> [] then
            ''**'' @ Command common @ '' Failed**: '' @ ProjectResult.Failure r @ ''\<newline>''
          else (case ProjectResult.PlanSuccess r of
            Some plan \<Rightarrow>
              ''```diff\<newline>'' @ TerraformOutput plan @
              ''\<newline>```\<newline>\<newline>* To **discard** this plan click [here]('' @ LockURL plan @ '').''
          | None \<Rightarrow>
              if ApplySuccess r \<noteq> [] then ''```diff\<newline>'' @ ApplySuccess r @ ''\<newline>```''
              else ''Found no template. This is a bug!''))"
  by (simp add: renderProjectResult_def render_errTmpl render_failureTmpl
      render_planSuccessTmpl render_applySuccessTmpl split: option.splits)

lemma renderProjectResult_head:
  "\<exists>c s. renderProjectResult common r = c # s \<and> c \<noteq> CHR ''R''"
  by (simp add: renderProjectResult_closed split: option.splits)

lemma single_path_value:
  assumes "length (remdups (map Path rs)) = 1"
  shows "\<exists>r \<in> set rs.
     concat (map (\<lambda>p. the (map_of (results_loop rs c) p)) (sort (remdups (map Path rs)))) =
     renderProjectResult c r"
proof -
  from assms obtain p where p: "sort (remdups (map Path rs)) = [p]"
    by (cases "sort (remdups (map Path rs))") (auto simp: length_Suc_conv dest: arg_cong [where f = length])
  then have "p \<in> set (sort (remdups (map Path rs)))" by simp
  then have "p \<in> Path ` set rs" by simp
  then obtain r where "r \<in> set rs" "map_of (results_loop rs c) p = Some (renderProjectResult c r)"
    using results_loop_value [of p rs c] by blast
  with p show ?thesis by auto
qed

text \<open>
  C7, as the spec states it, fails on the code in both directions. The loop keys the
  renderings by path, so two results with the same path leave one entry and the
  single-project template is used although there are two results; and the single-project
  output contains whatever the one result contains, which may be the text of a header.
\<close>

theorem C7_framing_counterexample:
  "length [\<lparr>Path = ''a'', Error = None, Failure = [], PlanSuccess = None, ApplySuccess = ''x''\<rparr>,
           \<lparr>Path = ''a'', Error = None, Failure = [], PlanSuccess = None, ApplySuccess = ''y''\<rparr>] \<noteq> 1 \<and>
   \<not> sublist ''Ran Apply in ''
     (Render CommandName_String
        \<lparr>CommandResponse.Error = None, Failure = [],
         ProjectResults =
           [\<lparr>Path = ''a'', Error = None, Failure = [], PlanSuccess = None, ApplySuccess = ''x''\<rparr>,
            \<lparr>Path = ''a'', Error = None, Failure = [], PlanSuccess = None, ApplySuccess = ''y''\<rparr>]\<rparr>
        Apply [] False) \<and>
   length [\<lparr>Path = ''p'', Error = None, Failure = [], PlanSuccess = None,
            ApplySuccess = ''Ran Apply in 2 directories:''\<rparr>] = 1 \<and>
   sublist ''Ran Apply in 2 directories:''
     (Render CommandName_String
        \<lparr>CommandResponse.Error = None, Failure = [],
         ProjectResults =
           [\<lparr>Path = ''p'', Error = None, Failure = [], PlanSuccess = None,
             ApplySuccess = ''Ran Apply in 2 directories:''\<rparr>]\<rparr>
        Apply [] False)"
  by code_simp

text \<open>
  C7, amended. For a command other than Help, no error and no failure, let \<open>n\<close> be the
  number of distinct paths among the project results. The output begins with the header
  "Ran {Cmd} in n directories:" if \<open>n\<close> is not 1, and does not begin with "Ran " if
  \<open>n\<close> is 1. An empty sequence of results is rendered with the multi-project template
  and the count 0. When the paths are pairwise distinct, \<open>n\<close> is the number of results.
\<close>

theorem C7_framing:
  assumes "cmdName \<noteq> Help"
    and "CommandResponse.Error res = None"
    and "CommandResponse.Failure res = []"
    and "n = length (remdups (map Path (ProjectResults res)))"
  shows
   "(n \<noteq> 1 \<longrightarrow>
       prefix (''Ran '' @ Title (String cmdName) @ '' in '' @ decimal n @ '' directories:\<newline>'')
         (Render String res cmdName log verbose)) \<and>
    (n = 1 \<longrightarrow> \<not> prefix ''Ran '' (Render String res cmdName log verbose)) \<and>
    (ProjectResults res = [] \<longrightarrow>
       Render String res cmdName log verbose =
         ''Ran '' @ Title (String cmdName) @ '' in 0 directories:\<newline>\<newline>'' @
         log_fragment verbose log) \<and>
    (distinct (map Path (ProjectResults res)) \<longrightarrow> n = length (ProjectResults res))"
proof -
  let ?c = "\<lparr>Command = Title (String cmdName), Verbose = verbose, Log = log\<rparr>"
  have R: "Render String res cmdName log verbose = renderProjectResults (ProjectResults res) ?c"
    using assms(1-3) by (rule Render_results)
  have multi: "prefix (''Ran '' @ Title (String cmdName) @ '' in '' @ decimal n @ '' directories:\<newline>'')
         (Render String res cmdName log verbose)" if "n \<noteq> 1"
  proof -
    from that have "length (remdups (map Path (ProjectResults res))) \<noteq> 1"
      by (simp add: assms(4))
    then show ?thesis
      unfolding R assms(4) by (simp add: renderProjectResults_multi)
  qed
  have single: "\<not> prefix ''Ran '' (Render String res cmdName log verbose)" if "n = 1"
  proof -
    from that have one: "length (remdups (map Path (ProjectResults res))) = 1"
      by (simp add: assms(4))
    from single_path_value [OF one, of ?c] renderProjectResult_head
    obtain ch s where
      "concat (map (\<lambda>p. the (map_of (results_loop (ProjectResults res) ?c) p))
                 (sort (remdups (map Path (ProjectResults res))))) = ch # s" "ch \<noteq> CHR ''R''"
      by metis
    then show ?thesis
      unfolding R by (simp add: renderProjectResults_single [OF one])
  qed
  have none: "Render String res cmdName log verbose =
         ''Ran '' @ Title (String cmdName) @ '' in 0 directories:\<newline>\<newline>'' @
         log_fragment verbose log" if "ProjectResults res = []"
    using that unfolding R by (simp add: renderProjectResults_multi)
  have len: "n = length (ProjectResults res)" if "distinct (map Path (ProjectResults res))"
  proof -
    from that have "remdups (map Path (ProjectResults res)) = map Path (ProjectResults res)"
      by (rule distinct_remdups_id)
    then have "length (remdups (map Path (ProjectResults res))) =
               length (map Path (ProjectResults res))"
      by (rule arg_cong)
    then show ?thesis by (simp only: assms(4) length_map)
  qed
  from multi single none len show ?thesis by blast
qed

theorem C7_framing_witness:
  "Apply \<noteq> Help \<and>
   Render CommandName_String
     \<lparr>CommandResponse.Error = None, Failure = [], ProjectResults = []\<rparr> Apply [] False =
     ''Ran Apply in 0 directories:\<newline>\<newline>\<newline>'' \<and>
   length (remdups (map Path
     [\<lparr>Path = ''a'', Error = None, Failure = [], PlanSuccess = None, ApplySuccess = ''x''\<rparr>,
      \<lparr>Path = ''a'', Error = None, Failure = [], PlanSuccess = None, ApplySuccess = ''y''\<rparr>])) = 1 \<and>
   \<not> prefix ''Ran ''
     (Render CommandName_String
        \<lparr>CommandResponse.Error = None, Failure = [],
         ProjectResults =
           [\<lparr>Path = ''a'', Error = None, Failure = [], PlanSuccess = None, ApplySuccess = ''x''\<rparr>,
            \<lparr>Path = ''a'', Error = None, Failure = [], PlanSuccess = None, ApplySuccess = ''y''\<rparr>]\<rparr>
        Apply [] False) \<and>
   distinct (map Path
     [\<lparr>Path = ''b'', Error = None, Failure = ''locked'', PlanSuccess = None, ApplySuccess = []\<rparr>,
      \<lparr>Path = ''a'', Error = None, Failure = [], PlanSuccess = None, ApplySuccess = ''done''\<rparr>]) \<and>
   prefix ''Ran Apply in 2 directories:\<newline>''
     (Render CommandName_String
        \<lparr>CommandResponse.Error = None, Failure = [],
         ProjectResults =
           [\<lparr>Path = ''b'', Error = None, Failure = ''locked'', PlanSuccess = None, ApplySuccess = []\<rparr>,
            \<lparr>Path = ''a'', Error = None, Failure = [], PlanSuccess = None, ApplySuccess = ''done''\<rparr>]\<rparr>
        Apply [] False)"
proof -
  let ?a1 = "\<lparr>Path = ''a'', Error = None, Failure = [], PlanSuccess = None, ApplySuccess = ''x''\<rparr>"
  let ?a2 = "\<lparr>Path = ''a'', Error = None, Failure = [], PlanSuccess = None, ApplySuccess = ''y''\<rparr>"
  let ?b = "\<lparr>Path = ''b'', Error = None, Failure = ''locked'', PlanSuccess = None, ApplySuccess = []\<rparr>"
  let ?a = "\<lparr>Path = ''a'', Error = None, Failure = [], PlanSuccess = None, ApplySuccess = ''done''\<rparr>"
  let ?r0 = "\<lparr>CommandResponse.Error = None, Failure = [], ProjectResults = []\<rparr>"
  let ?r1 = "\<lparr>CommandResponse.Error = None, Failure = [], ProjectResults = [?a1, ?a2]\<rparr>"
  let ?r2 = "\<lparr>CommandResponse.Error = None, Failure = [], ProjectResults = [?b, ?a]\<rparr>"
  have h: "Apply \<noteq> Help" by simp
  have n0: "0 = length (remdups (map Path (ProjectResults ?r0)))" by simp
  have n1: "1 = length (remdups (map Path (ProjectResults ?r1)))" by simp
  have n2: "2 = length (remdups (map Path (ProjectResults ?r2)))" by simp
  from n1
    C7_framing [where String = CommandName_String and cmdName = Apply and res = ?r0
      and log = "[]" and verbose = False, OF h _ _ n0]
    C7_framing [where String = CommandName_String and cmdName = Apply and res = ?r1
      and log = "[]" and verbose = False, OF h _ _ n1]
    C7_framing [where String = CommandName_String and cmdName = Apply and res = ?r2
      and log = "[]" and verbose = False, OF h _ _ n2]
  show ?thesis
    by (simp add: Title_apply log_fragment_False)
qed

subsection \<open>The log fragment\<close>

lemma occurrences_0_iff: "occurrences n h = 0 \<longleftrightarrow> \<not> sublist n h"
  by (induction h) (auto simp: sublist_Cons_right)

lemma prefix_append_notin:
  assumes "c \<notin> set n"
  shows "prefix n (a @ c # b) \<longleftrightarrow> prefix n a"
proof
  assume "prefix n (a @ c # b)"
  then consider "prefix n a" | us where "n = a @ us" "prefix us (c # b)"
    by (auto simp: prefix_append)
  then show "prefix n a"
  proof cases
    case 1
    then show ?thesis .
  next
    case 2
    with assms have "us = []" by (cases us) auto
    with 2 show ?thesis by simp
  qed
next
  assume "prefix n a"
  then show "prefix n (a @ c # b)" by (rule prefix_prefix)
qed

lemma occurrences_split:
  assumes "c \<notin> set n"
  shows "occurrences n (a @ c # b) = occurrences n a + occurrences n b"
proof (induction a)
  case Nil
  from assms have "prefix n (c # b) \<longleftrightarrow> n = []" by (cases n) auto
  then show ?case by simp
next
  case (Cons x a)
  from assms have "prefix n (x # a @ c # b) \<longleftrightarrow> prefix n (x # a)"
    using prefix_append_notin [of c n "x # a" b] by simp
  with Cons show ?case by simp
qed

lemma decimal_digits: "set (decimal n) \<subseteq> set ''0123456789''"
proof (induction n rule: decimal.induct)
  case (1 n)
  have d: "''0123456789'' ! k \<in> set ''0123456789''" if "k < 10" for k
    using that by (intro nth_mem) simp
  show ?case
  proof (cases "n < 10")
    case True
    with d [of n] show ?thesis by (subst decimal.simps) simp
  next
    case False
    have "n mod 10 < 10" by simp
    with d [of "n mod 10"] 1 False show ?thesis by (subst decimal.simps) simp
  qed
qed

lemma decimal_clean: "occurrences ''<details>'' (decimal n) = 0"
proof -
  have "\<not> sublist ''<details>'' (decimal n)"
  proof
    assume "sublist ''<details>'' (decimal n)"
    then have "set ''<details>'' \<subseteq> set (decimal n)" by (rule set_mono_sublist)
    with decimal_digits [of n] show False by auto
  qed
  then show ?thesis by (simp add: occurrences_0_iff)
qed

lemma renderProjectResult_clean:
  assumes "occurrences ''<details>'' (Command c) = 0"
    and "\<forall>s \<in> set (ProjectResult_strings r). occurrences ''<details>'' s = 0"
  shows "occurrences ''<details>'' (renderProjectResult c r) = 0"
  using assms
  by (simp add: renderProjectResult_closed ProjectResult_strings_def occurrences_split
      split: option.splits)

lemma bullets_clean:
  "\<forall>p \<in> set ps. occurrences ''<details>'' p = 0 \<Longrightarrow>
   occurrences ''<details>'' (concat (map (\<lambda>p. '' * `'' @ p @ ''`\<newline>'') ps) @ rest) =
   occurrences ''<details>'' rest"
  by (induction ps) (simp_all add: occurrences_split)

lemma sections_clean:
  "\<forall>p \<in> set ps. occurrences ''<details>'' p = 0 \<and> occurrences ''<details>'' (g p) = 0 \<Longrightarrow>
   occurrences ''<details>''
     (concat (map (\<lambda>p. ''## '' @ p @ ''/\<newline>'' @ g p @ ''\<newline>---\<newline>'') ps) @ rest) =
   occurrences ''<details>'' rest"
  by (induction ps) (simp_all add: occurrences_split)

lemma renderProjectResult_Command:
  "Command c = Command c' \<Longrightarrow> renderProjectResult c r = renderProjectResult c' r"
  by (simp add: renderProjectResult_closed split: option.splits)

lemma results_loop_Command:
  assumes "Command c = Command c'"
  shows "results_loop rs c = results_loop rs c'"
proof -
  have "renderProjectResult c r = renderProjectResult c' r" for r
    using assms by (rule renderProjectResult_Command)
  then show ?thesis by (simp add: results_loop_def)
qed

lemma renderProjectResults_body:
  "\<exists>body. \<forall>v l. renderProjectResults rs \<lparr>Command = t, Verbose = v, Log = l\<rparr> =
                    body @ log_fragment v l"
proof -
  let ?c0 = "\<lparr>Command = t, Verbose = False, Log = []\<rparr>"
  have loop: "results_loop rs \<lparr>Command = t, Verbose = v, Log = l\<rparr> = results_loop rs ?c0"
    for v l by (rule results_loop_Command) simp
  show ?thesis
  proof (cases "length (remdups (map Path rs)) = 1")
    case True
    have "renderProjectResults rs \<lparr>Command = t, Verbose = v, Log = l\<rparr> =
          (concat (map (\<lambda>p. the (map_of (results_loop rs ?c0) p))
                     (sort (remdups (map Path rs)))) @ ''\<newline>'') @ log_fragment v l" for v l
      by (simp add: renderProjectResults_single [OF True] loop [of v l])
    then show ?thesis by blast
  next
    case False
    have "renderProjectResults rs \<lparr>Command = t, Verbose = v, Log = l\<rparr> =
          (''Ran '' @ t @ '' in '' @ decimal (length (remdups (map Path rs))) @
           '' directories:\<newline>'' @
           concat (map (\<lambda>p. '' * `'' @ p @ ''`\<newline>'') (sort (remdups (map Path rs)))) @
           ''\<newline>'' @
           concat (map (\<lambda>p. ''## '' @ p @ ''/\<newline>'' @ the (map_of (results_loop rs ?c0) p) @
                             ''\<newline>---\<newline>'')
                     (sort (remdups (map Path rs))))) @ log_fragment v l" for v l
      by (simp add: renderProjectResults_multi [OF False] loop [of v l])
    then show ?thesis by blast
  qed
qed

lemma Render_body:
  assumes "cmdName \<noteq> Help"
  shows "\<exists>body. \<forall>log verbose. Render String res cmdName log verbose =
                               body @ log_fragment verbose log"
proof (cases "CommandResponse.Error res")
  case (Some err)
  have "Render String res cmdName log verbose =
        (''**'' @ Title (String cmdName) @ '' Error**\<newline>```\<newline>'' @ err @ ''\<newline>```\<newline>'') @
        log_fragment verbose log" for log verbose
    using assms Some by (simp add: Render_error)
  then show ?thesis by blast
next
  case None
  show ?thesis
  proof (cases "CommandResponse.Failure res = []")
    case True
    from renderProjectResults_body [of "ProjectResults res" "Title (String cmdName)"]
    obtain body where
      b: "\<And>v l. renderProjectResults (ProjectResults res)
                   \<lparr>Command = Title (String cmdName), Verbose = v, Log = l\<rparr> =
                 body @ log_fragment v l"
      by blast
    have "Render String res cmdName log verbose = body @ log_fragment verbose log"
      for log verbose
      using assms None True by (simp add: Render_results b)
    then show ?thesis by blast
  next
    case False
    have "Render String res cmdName log verbose =
          (''**'' @ Title (String cmdName) @ '' Failed**: '' @ CommandResponse.Failure res @
           ''\<newline>'') @ log_fragment verbose log" for log verbose
      using assms None False by (simp add: Render_failure)
    then show ?thesis by blast
  qed
qed

lemma Render_log_fragment:
  assumes "cmdName \<noteq> Help"
  shows "Render String res cmdName log verbose =
         butlast (Render String res cmdName [] False) @ log_fragment verbose log"
proof -
  from Render_body [OF assms] obtain body where
    b: "\<And>log verbose. Render String res cmdName log verbose = body @ log_fragment verbose log"
    by blast
  have "butlast (Render String res cmdName [] False) = body"
    by (simp add: b log_fragment_False butlast_append)
  then show ?thesis by (simp add: b)
qed

lemma renderProjectResults_clean:
  assumes t: "occurrences ''<details>'' (Command c) = 0"
    and rs: "\<forall>r \<in> set rs. \<forall>s \<in> set (ProjectResult_strings r). occurrences ''<details>'' s = 0"
    and v: "\<not> Verbose c"
  shows "occurrences ''<details>'' (renderProjectResults rs c) = 0"
proof -
  have val: "occurrences ''<details>'' (renderProjectResult c r) = 0" if "r \<in> set rs" for r
    using t rs that by (intro renderProjectResult_clean) auto
  have lf: "log_fragment (Verbose c) (Log c) = ''\<newline>''"
    using v by (simp add: log_fragment_def)
  show ?thesis
  proof (cases "length (remdups (map Path rs)) = 1")
    case True
    from single_path_value [OF True, of c] obtain r where
      "r \<in> set rs"
      "concat (map (\<lambda>p. the (map_of (results_loop rs c) p)) (sort (remdups (map Path rs)))) =
       renderProjectResult c r"
      by blast
    with val [of r] show ?thesis
      by (simp add: renderProjectResults_single [OF True] lf occurrences_split)
  next
    case False
    have ps: "\<forall>p \<in> set (sort (remdups (map Path rs))).
        occurrences ''<details>'' p = 0 \<and>
        occurrences ''<details>'' (the (map_of (results_loop rs c) p)) = 0"
    proof
      fix p assume "p \<in> set (sort (remdups (map Path rs)))"
      then have "p \<in> Path ` set rs" by simp
      from results_loop_value [OF this, of c] obtain r where
        r: "r \<in> set rs" "Path r = p" "map_of (results_loop rs c) p = Some (renderProjectResult c r)"
        by blast
      from rs r(1,2) have "occurrences ''<details>'' p = 0"
        by (auto simp: ProjectResult_strings_def)
      with val [OF r(1)] r(3) show "occurrences ''<details>'' p = 0 \<and>
        occurrences ''<details>'' (the (map_of (results_loop rs c) p)) = 0" by simp
    qed
    then have ps1: "\<forall>p \<in> set (sort (remdups (map Path rs))). occurrences ''<details>'' p = 0"
      by blast
    have header: "occurrences ''<details>''
        (''Ran '' @ Command c @ '' in '' @ decimal (length (remdups (map Path rs))) @
         '' directories:\<newline>'' @ X) = occurrences ''<details>'' X" for X
      by (simp add: occurrences_split t decimal_clean)
    have blank: "occurrences ''<details>'' (''\<newline>'' @ X) = occurrences ''<details>'' X" for X
      by simp
    show ?thesis
      unfolding renderProjectResults_multi [OF False] lf header bullets_clean [OF ps1] blank
        sections_clean [OF ps]
      by simp
  qed
qed

lemma Render_clean:
  assumes "cmdName \<noteq> Help"
    and "\<forall>s \<in> set (Title (String cmdName) # CommandResponse_strings res).
           occurrences ''<details>'' s = 0"
  shows "occurrences ''<details>'' (Render String res cmdName log False) = 0"
proof (cases "CommandResponse.Error res")
  case (Some err)
  with assms show ?thesis
    by (simp add: Render_error CommandResponse_strings_def log_fragment_False occurrences_split)
next
  case None
  show ?thesis
  proof (cases "CommandResponse.Failure res = []")
    case True
    have "occurrences ''<details>''
            (renderProjectResults (ProjectResults res)
               \<lparr>Command = Title (String cmdName), Verbose = False, Log = log\<rparr>) = 0"
      using assms(2) by (intro renderProjectResults_clean) (auto simp: CommandResponse_strings_def)
    with assms(1) None True show ?thesis by (simp add: Render_results)
  next
    case False
    with assms None show ?thesis
      by (simp add: Render_failure CommandResponse_strings_def log_fragment_False
          occurrences_split)
  qed
qed

lemma marker_occurrences:
  assumes "occurrences ''<details>'' x = 0"
  shows "occurrences ''<details><summary>Log</summary>'' x = 0"
proof -
  have "sublist ''<details>'' ''<details><summary>Log</summary>''"
    by (rule prefix_imp_sublist) simp
  with assms show ?thesis
    unfolding occurrences_0_iff by (meson sublist_order.order_trans)
qed

text \<open>
  C6, as the spec states it, fails on the code: the templates substitute the strings of
  the response and the log without escaping them. A failure text "<details>" appears in
  the non-verbose output, and a log that holds the summary line makes it occur twice in
  the verbose output.
\<close>

theorem C6_log_inclusion_counterexample:
  "Plan \<noteq> Help \<and>
   sublist ''<details>''
     (Render CommandName_String
        \<lparr>CommandResponse.Error = None, Failure = ''<details>'', ProjectResults = []\<rparr>
        Plan [] False) \<and>
   occurrences ''<details><summary>Log</summary>''
     (Render CommandName_String
        \<lparr>CommandResponse.Error = None, Failure = ''nope'', ProjectResults = []\<rparr>
        Plan ''<details><summary>Log</summary>'' True) = 2"
  by code_simp

text \<open>
  C6, amended. For a command other than Help the output is a body that depends neither on
  the log nor on the verbose flag, followed by the log fragment: a newline when verbose is
  off; when verbose is on, a newline, "<details><summary>Log</summary>", the opening of
  the block, the log verbatim, and the closing of the block. When neither the title-cased
  command nor any string of the response contains "<details>", the non-verbose output
  does not contain it either, and, if the log does not contain it, the verbose output
  contains "<details><summary>Log</summary>" exactly once.
\<close>

theorem C6_log_inclusion:
  assumes "cmdName \<noteq> Help"
  shows
   "Render String res cmdName log False =
      butlast (Render String res cmdName [] False) @ ''\<newline>'' \<and>
    Render String res cmdName log True =
      butlast (Render String res cmdName [] False) @
      ''\<newline><details><summary>Log</summary>\<newline>  <p>\<newline>\<newline>```\<newline>'' @ log @
      ''```\<newline></p></details>\<newline>'' \<and>
    ((\<forall>s \<in> set (Title (String cmdName) # CommandResponse_strings res).
        \<not> sublist ''<details>'' s) \<longrightarrow>
       \<not> sublist ''<details>'' (Render String res cmdName log False) \<and>
       (\<not> sublist ''<details>'' log \<longrightarrow>
          occurrences ''<details><summary>Log</summary>''
            (Render String res cmdName log True) = 1))"
proof (intro conjI impI)
  show "Render String res cmdName log False =
      butlast (Render String res cmdName [] False) @ ''\<newline>''"
    using Render_log_fragment [OF assms, of String res log False]
    by (simp add: log_fragment_False)
  show "Render String res cmdName log True =
      butlast (Render String res cmdName [] False) @
      ''\<newline><details><summary>Log</summary>\<newline>  <p>\<newline>\<newline>```\<newline>'' @ log @
      ''```\<newline></p></details>\<newline>''"
    using Render_log_fragment [OF assms, of String res log True]
    by (simp add: log_fragment_True)
next
  assume clean: "\<forall>s \<in> set (Title (String cmdName) # CommandResponse_strings res).
        \<not> sublist ''<details>'' s"
  then have c0: "\<forall>s \<in> set (Title (String cmdName) # CommandResponse_strings res).
        occurrences ''<details>'' s = 0"
    by (simp add: occurrences_0_iff)
  show "\<not> sublist ''<details>'' (Render String res cmdName log False)"
    using Render_clean [where String = String and cmdName = cmdName and res = res and log = log,
        OF assms c0]
    by (simp add: occurrences_0_iff)
  assume "\<not> sublist ''<details>'' log"
  then have l0: "occurrences ''<details><summary>Log</summary>'' log = 0"
    by (intro marker_occurrences) (simp add: occurrences_0_iff)
  let ?body = "butlast (Render String res cmdName [] False)"
  have "occurrences ''<details>'' (?body @ ''\<newline>'') = 0"
    using Render_clean [where String = String and cmdName = cmdName and res = res and log = "[]",
        OF assms c0]
      Render_log_fragment [OF assms, of String res "[]" False]
    by (simp add: log_fragment_False)
  then have "occurrences ''<details>'' ?body = 0"
    by (simp add: occurrences_split)
  then have b0: "occurrences ''<details><summary>Log</summary>'' ?body = 0"
    by (rule marker_occurrences)
  have "occurrences ''<details><summary>Log</summary>'' (?body @ log_fragment True log) = 1"
    using b0 l0 by (simp add: log_fragment_True occurrences_split)
  then show "occurrences ''<details><summary>Log</summary>''
            (Render String res cmdName log True) = 1"
    using Render_log_fragment [OF assms, of String res log True] by simp
qed

theorem C6_log_inclusion_witness:
  "Apply \<noteq> Help \<and>
   Title (CommandName_String Apply) #
     CommandResponse_strings
       \<lparr>CommandResponse.Error = None, Failure = ''nope'', ProjectResults = []\<rparr> =
     [''Apply'', ''nope''] \<and>
   \<not> sublist ''<details>'' ''Apply'' \<and>
   \<not> sublist ''<details>'' ''nope'' \<and>
   \<not> sublist ''<details>'' ''xyz'' \<and>
   Render CommandName_String
     \<lparr>CommandResponse.Error = None, Failure = ''nope'', ProjectResults = []\<rparr>
     Apply ''xyz'' False = ''**Apply Failed**: nope\<newline>\<newline>'' \<and>
   Render CommandName_String
     \<lparr>CommandResponse.Error = None, Failure = ''nope'', ProjectResults = []\<rparr>
     Apply ''xyz'' True =
     ''**Apply Failed**: nope\<newline>\<newline><details><summary>Log</summary>\<newline>  <p>\<newline>\<newline>```\<newline>xyz```\<newline></p></details>\<newline>'' \<and>
   \<not> sublist ''<details>''
     (Render CommandName_String
        \<lparr>CommandResponse.Error = None, Failure = ''nope'', ProjectResults = []\<rparr>
        Apply ''xyz'' False) \<and>
   occurrences ''<details><summary>Log</summary>''
     (Render CommandName_String
        \<lparr>CommandResponse.Error = None, Failure = ''nope'', ProjectResults = []\<rparr>
        Apply ''xyz'' True) = 1"
proof -
  let ?res = "\<lparr>CommandResponse.Error = None, Failure = ''nope'', ProjectResults = []\<rparr>"
  have h: "Apply \<noteq> Help" by simp
  have c: "\<forall>s \<in> set (Title (CommandName_String Apply) # CommandResponse_strings ?res).
      \<not> sublist ''<details>'' s"
    by (simp add: Title_apply CommandResponse_strings_def sublist_Cons_right)
  have l: "\<not> sublist ''<details>'' ''xyz''"
    by (simp add: sublist_Cons_right)
  have r0: "Render CommandName_String ?res Apply [] False = ''**Apply Failed**: nope\<newline>\<newline>''"
    by code_simp
  have e: "Title (CommandName_String Apply) # CommandResponse_strings ?res =
           [''Apply'', ''nope'']"
    by (simp add: Title_apply CommandResponse_strings_def)
  from h c l r0 e
    C6_log_inclusion [where String = CommandName_String and cmdName = Apply and res = ?res
      and log = "''xyz''", OF h]
  show ?thesis by (simp add: sublist_Cons_right)
qed

subsection \<open>Title casing of the command\<close>

lemma isSeparator_space: "isSeparator (CHR '' '')"
  by (simp add: isSeparator_def)

lemma length_Title_from: "length (Title_from prev s) = length s"
  by (induction s arbitrary: prev) simp_all

lemma Title_from_nth:
  "i < length s \<Longrightarrow>
   Title_from prev s ! i =
     (if isSeparator (if i = 0 then prev else s ! (i - 1)) then ToTitle (s ! i) else s ! i)"
proof (induction s arbitrary: prev i)
  case Nil
  then show ?case by simp
next
  case (Cons r s)
  show ?case
  proof (cases i)
    case 0
    then show ?thesis by simp
  next
    case (Suc j)
    with Cons.prems have "j < length s" by simp
    from Cons.IH [OF this, of r] Suc show ?thesis by (cases j) simp_all
  qed
qed

lemma Title_from_no_separator:
  "\<not> isSeparator prev \<Longrightarrow> \<forall>c \<in> set s. \<not> isSeparator c \<Longrightarrow> Title_from prev s = s"
  by (induction s arbitrary: prev) simp_all

text \<open>
  C8, as the spec states it, fails on the code: \<open>strings.Title\<close> gives the title case
  to the first letter of every word, not only to the first character of the string. A
  string form "plan all" is embedded as "Plan All".
\<close>

theorem C8_title_casing_counterexample:
  "Render (\<lambda>c. ''plan all'')
     \<lparr>CommandResponse.Error = Some ''boom'', Failure = [], ProjectResults = []\<rparr>
     Plan [] False
   = ''**Plan All Error**\<newline>```\<newline>boom\<newline>```\<newline>\<newline>'' \<and>
   Title ''plan all'' = ''Plan All'' \<and>
   Title ''plan all'' \<noteq> ToTitle (CHR ''p'') # ''lan all''"
  by code_simp

text \<open>
  C8, amended. For a command other than Help, the command embedded in the output (after
  the two stars of the error and failure headings, and as \<open>Command\<close> of the data of the
  project results) is \<open>strings.Title\<close> of the string form of the command. For an ASCII
  string form this is a string of the same length in which the first character and every
  character that follows a separator (a character other than a letter, a digit or an
  underscore) are replaced by their title case and the others are unchanged. When the
  string form has no separator, as "plan" and "apply", only its first character is
  changed, and capitals further on stay.
\<close>

theorem C8_title_casing:
  assumes "cmdName \<noteq> Help"
  shows
   "(CommandResponse.Error res = Some err \<longrightarrow>
       Render String res cmdName log verbose =
         ''**'' @ Title (String cmdName) @ '' Error**\<newline>```\<newline>'' @ err @ ''\<newline>```\<newline>'' @
         log_fragment verbose log) \<and>
    (CommandResponse.Error res = None \<and> CommandResponse.Failure res \<noteq> [] \<longrightarrow>
       Render String res cmdName log verbose =
         ''**'' @ Title (String cmdName) @ '' Failed**: '' @ CommandResponse.Failure res @
         ''\<newline>'' @ log_fragment verbose log) \<and>
    (CommandResponse.Error res = None \<and> CommandResponse.Failure res = [] \<longrightarrow>
       Render String res cmdName log verbose =
         renderProjectResults (ProjectResults res)
           \<lparr>Command = Title (String cmdName), Verbose = verbose, Log = log\<rparr>) \<and>
    ((\<forall>c \<in> set s. c \<le> CHR 0x7F) \<longrightarrow>
       length (Title s) = length s \<and>
       (\<forall>i < length s.
          Title s ! i =
            (if i = 0 \<or> isSeparator (s ! (i - 1)) then ToTitle (s ! i) else s ! i)) \<and>
       ((\<forall>c \<in> set s. \<not> isSeparator c) \<longrightarrow>
          Title s = (case s of [] \<Rightarrow> [] | c # cs \<Rightarrow> ToTitle c # cs))) \<and>
    Title ''plan'' = ''Plan'' \<and> Title ''apply'' = ''Apply'' \<and> Title ''pLan'' = ''PLan''"
proof -
  have idx: "\<forall>i < length s.
       Title s ! i = (if i = 0 \<or> isSeparator (s ! (i - 1)) then ToTitle (s ! i) else s ! i)"
    by (simp add: Title_def Title_from_nth isSeparator_space)
  have nosep: "Title s = (case s of [] \<Rightarrow> [] | c # cs \<Rightarrow> ToTitle c # cs)"
    if "\<forall>c \<in> set s. \<not> isSeparator c"
    using that by (cases s) (simp_all add: Title_def isSeparator_space Title_from_no_separator)
  have ex: "Title ''pLan'' = ''PLan''" by code_simp
  from assms idx nosep ex show ?thesis
    by (simp add: Render_error Render_failure Render_results Title_def [of s] length_Title_from
        Title_plan Title_apply)
qed

theorem C8_title_casing_witness:
  "Plan \<noteq> Help \<and>
   Render CommandName_String
     \<lparr>CommandResponse.Error = Some ''boom'', Failure = [], ProjectResults = []\<rparr> Plan [] False =
     ''**Plan Error**\<newline>```\<newline>boom\<newline>```\<newline>\<newline>'' \<and>
   Render CommandName_String
     \<lparr>CommandResponse.Error = None, Failure = ''nope'', ProjectResults = []\<rparr> Plan [] False =
     ''**Plan Failed**: nope\<newline>\<newline>'' \<and>
   Render CommandName_String
     \<lparr>CommandResponse.Error = None, Failure = [], ProjectResults = []\<rparr> Plan [] False =
     renderProjectResults [] \<lparr>Command = ''Plan'', Verbose = False, Log = []\<rparr> \<and>
   CHR ''p'' \<le> CHR 0x7F \<and> CHR ''l'' \<le> CHR 0x7F \<and>
   CHR ''a'' \<le> CHR 0x7F \<and> CHR ''n'' \<le> CHR 0x7F \<and>
   \<not> isSeparator (CHR ''p'') \<and> \<not> isSeparator (CHR ''l'') \<and>
   \<not> isSeparator (CHR ''a'') \<and> \<not> isSeparator (CHR ''n'') \<and>
   Title ''plan'' = ToTitle (CHR ''p'') # ''lan'' \<and>
   (1::nat) < length ''plan'' \<and>
   Title ''plan'' ! 1 = CHR ''l''"
proof -
  have h: "Plan \<noteq> Help" by simp
  have s: "\<forall>c \<in> set ''plan''. \<not> isSeparator c" by (simp add: isSeparator_def)
  have l: "\<not> isSeparator (CHR ''p'')" by (simp add: isSeparator_def)
  from s l
    C8_title_casing [where String = CommandName_String and cmdName = Plan and log = "[]"
      and verbose = False and s = "''plan''" and err = "''boom''"
      and res = "\<lparr>CommandResponse.Error = Some ''boom'', Failure = [], ProjectResults = []\<rparr>",
      OF h]
    C8_title_casing [where String = CommandName_String and cmdName = Plan and log = "[]"
      and verbose = False and s = "''plan''" and err = "''boom''"
      and res = "\<lparr>CommandResponse.Error = None, Failure = ''nope'', ProjectResults = []\<rparr>",
      OF h]
    C8_title_casing [where String = CommandName_String and cmdName = Plan and log = "[]"
      and verbose = False and s = "''plan''" and err = "''boom''"
      and res = "\<lparr>CommandResponse.Error = None, Failure = [], ProjectResults = []\<rparr>",
      OF h]
  show ?thesis by (simp add: log_fragment_False)
qed

end
